theory Spec2Isabelle
  imports Main "HOL-Library.Sublist"
begin

section \<open>Paths\<close>

text \<open>
  \<^verbatim>\<open>main.py\<close> builds every directory with \<^verbatim>\<open>pathlib\<close>'s \<^verbatim>\<open>/\<close> operator on a POSIX path.
  A path is its root (\<^verbatim>\<open>''\<close>, \<^verbatim>\<open>'/'\<close> or \<^verbatim>\<open>'//'\<close>) and the names below it.
  \<^verbatim>\<open>p / s\<close> parses the string \<^verbatim>\<open>s\<close>: it is split at \<^verbatim>\<open>/\<close>, empty names and \<^verbatim>\<open>.\<close> are
  dropped, and a string that starts with \<^verbatim>\<open>/\<close> replaces \<^verbatim>\<open>p\<close> altogether.
\<close>

datatype path = Path (root: string) (names: "string list")

fun split_sep :: "string \<Rightarrow> string list" where
  "split_sep [] = [[]]"
| "split_sep (c # cs) =
     (if c = CHR ''/'' then [] # split_sep cs
      else (case split_sep cs of [] \<Rightarrow> [[c]] | p # ps \<Rightarrow> (c # p) # ps))"

definition splitroot :: "string \<Rightarrow> string \<times> string" where
  "splitroot part =
     (if part \<noteq> [] \<and> hd part = CHR ''/'' then
        (let stripped_part = dropWhile (\<lambda>c. c = CHR ''/'') part
         in if length part - length stripped_part = 2 then (''//'', stripped_part)
            else (''/'', stripped_part))
      else ('''', part))"

definition path_of_str :: "string \<Rightarrow> path" where
  "path_of_str s =
     (case splitroot s of (rt, rel) \<Rightarrow>
        Path rt (filter (\<lambda>x. x \<noteq> [] \<and> x \<noteq> ''.'') (split_sep rel)))"

definition truediv :: "path \<Rightarrow> string \<Rightarrow> path" where
  "truediv p s =
     (let q = path_of_str s
      in if root q \<noteq> [] then q else Path (root p) (names p @ names q))"

section \<open>Collaborators\<close>

text \<open>
  Everything \<^verbatim>\<open>main.py\<close> imports is a collaborator: it is a parameter of the model. An
  object a collaborator returns (a corpus, a batch generator, a network, a labeled example,
  a spectrogram) is opaque and is known by its identity only. A collaborator reads and
  changes the world \<open>'w\<close> (file system, clock, the objects it has built) and either
  returns a value or raises.
\<close>

datatype obj = Obj nat

datatype exn = Exn string

type_synonym ('w, 'a) extern = "'w \<Rightarrow> (exn + 'a) \<times> 'w"

text \<open>The keyword arguments \<^verbatim>\<open>load_best_wav2letter_model\<close> passes to \<^verbatim>\<open>Wav2Letter\<close>.\<close>

record Wav2Letter_args =
  arg_allowed_characters :: "string list"
  arg_input_size_per_time_step :: int
  arg_load_model_from_directory :: path
  arg_load_epoch :: int
  arg_allowed_characters_for_loaded_model :: "string list"
  arg_frozen_layer_count :: int
  arg_kenlm_directory :: "path option"

record 'w externals =
  home_directory :: path
  timestamp :: "('w, string) extern"
  english_frequent_characters :: "string list"
  german_frequent_characters :: "string list"
  english_corpus :: "path \<Rightarrow> ('w, obj) extern"
  german_corpus :: "path \<Rightarrow> ('w, obj) extern"
  Corpus_load :: "path \<Rightarrow> ('w, obj) extern"
  LabeledSpectrogramBatchGenerator :: "obj \<Rightarrow> path \<Rightarrow> ('w, obj) extern"
  Wav2Letter :: "Wav2Letter_args \<Rightarrow> ('w, obj) extern"
  Wav2LetterWithCorpus :: "obj \<Rightarrow> obj \<Rightarrow> path \<Rightarrow> ('w, obj) extern"
  Wav2LetterWithCorpus_train :: "obj \<Rightarrow> path \<Rightarrow> path \<Rightarrow> int \<Rightarrow> ('w, unit) extern"
  LabeledExample :: "path \<Rightarrow> ('w, obj) extern"
  LabeledSpectrogram_id :: "obj \<Rightarrow> ('w, string) extern"
  z_normalized_transposed_spectrogram :: "obj \<Rightarrow> ('w, obj) extern"
  predict_single :: "obj \<Rightarrow> obj \<Rightarrow> ('w, string) extern"
  print :: "string \<Rightarrow> ('w, unit) extern"

section \<open>Module constants\<close>

definition base_directory :: "'w externals \<Rightarrow> path" where
  "base_directory ext = truediv (home_directory ext) ''speechless-data''"

definition tensorboard_log_base_directory :: "'w externals \<Rightarrow> path" where
  "tensorboard_log_base_directory ext = truediv (base_directory ext) ''logs''"

definition nets_base_directory :: "'w externals \<Rightarrow> path" where
  "nets_base_directory ext = truediv (base_directory ext) ''nets''"

definition recording_directory :: "'w externals \<Rightarrow> path" where
  "recording_directory ext = truediv (base_directory ext) ''recordings''"

definition corpus_base_directory :: "'w externals \<Rightarrow> path" where
  "corpus_base_directory ext = truediv (base_directory ext) ''corpus''"

definition spectrogram_cache_base_directory :: "'w externals \<Rightarrow> path" where
  "spectrogram_cache_base_directory ext = truediv (base_directory ext) ''spectrogram-cache''"

definition kenlm_base_directory :: "'w externals \<Rightarrow> path" where
  "kenlm_base_directory ext = truediv (base_directory ext) ''kenlm''"

section \<open>Configuration\<close>

text \<open>
  The two slots are the entries \<^verbatim>\<open>corpus\<close> and \<^verbatim>\<open>batch_generator\<close> of the instance's
  \<^verbatim>\<open>__dict__\<close>, which the \<^verbatim>\<open>@lazy\<close> descriptor fills; \<^verbatim>\<open>__init__\<close> leaves them absent.
\<close>

record 'w Configuration =
  name :: string
  spectrogram_cache_directory :: path
  corpus_directory :: path
  corpus_from_directory :: "path \<Rightarrow> ('w, obj) extern"
  allowed_characters :: "string list"
  corpus_slot :: "obj option"
  batch_generator_slot :: "obj option"

text \<open>
  \<^verbatim>\<open>Configuration.__init__\<close>. A directory argument is a \<^verbatim>\<open>Path\<close> or \<^verbatim>\<open>None\<close>; a \<^verbatim>\<open>Path\<close> is
  always true in a condition, so only \<^verbatim>\<open>None\<close> takes the default.
\<close>

definition Configuration_init ::
  "'w externals \<Rightarrow> string \<Rightarrow> string list \<Rightarrow> (path \<Rightarrow> ('w, obj) extern) \<Rightarrow>
   path option \<Rightarrow> path option \<Rightarrow> 'w Configuration" where
  "Configuration_init ext nm chars loader corpus_dir cache_dir =
     \<lparr> name = nm,
       spectrogram_cache_directory =
         (case cache_dir of Some d \<Rightarrow> d
          | None \<Rightarrow> truediv (spectrogram_cache_base_directory ext) nm),
       corpus_directory =
         (case corpus_dir of Some d \<Rightarrow> d | None \<Rightarrow> truediv (corpus_base_directory ext) nm),
       corpus_from_directory = loader,
       allowed_characters = chars,
       corpus_slot = None,
       batch_generator_slot = None \<rparr>"

text \<open>The directories an instance works in.\<close>

definition resolved_paths :: "'w Configuration \<Rightarrow> path set" where
  "resolved_paths c = {corpus_directory c, spectrogram_cache_directory c}"

section \<open>Calls, traces and exceptions\<close>

text \<open>
  A computation takes a state and returns either the exception it raised or its value,
  with the state it left. The state of a module-level function is the world and the trace:
  the calls made so far to collaborators, in order, each with its arguments. An event is
  appended when the call is made, whether the collaborator then returns or raises.
\<close>

datatype event =
    Call_timestamp
  | Call_corpus_from_directory path
  | New_LabeledSpectrogramBatchGenerator obj path
  | New_Wav2Letter Wav2Letter_args
  | New_Wav2LetterWithCorpus obj obj path
  | Call_train obj path path int
  | New_LabeledExample path
  | Get_id obj
  | Call_z_normalized_transposed_spectrogram obj
  | Call_predict_single obj obj
  | Call_print string

type_synonym ('s, 'a) io = "'s \<Rightarrow> (exn + 'a) \<times> 's"

type_synonym 'w st = "'w \<times> event list"

definition io_return :: "'a \<Rightarrow> ('s, 'a) io" where
  "io_return x = (\<lambda>s. (Inr x, s))"

definition io_bind :: "('s, 'a) io \<Rightarrow> ('a \<Rightarrow> ('s, 'b) io) \<Rightarrow> ('s, 'b) io" where
  "io_bind m f = (\<lambda>s. case m s of (Inl e, s') \<Rightarrow> (Inl e, s') | (Inr x, s') \<Rightarrow> f x s')"

definition call :: "event \<Rightarrow> ('w, 'a) extern \<Rightarrow> ('w st, 'a) io" where
  "call ev f = (\<lambda>(w, tr). case f w of (r, w') \<Rightarrow> (r, (w', tr @ [ev])))"

text \<open>
  A method runs on the instance \<^verbatim>\<open>self\<close> as well, which it may update.
\<close>

type_synonym 'w mst = "'w Configuration \<times> 'w st"

definition lift :: "('w st, 'a) io \<Rightarrow> ('w mst, 'a) io" where
  "lift m = (\<lambda>(self, s). case m s of (r, s') \<Rightarrow> (r, (self, s')))"

definition with_self :: "('w Configuration \<Rightarrow> ('w mst, 'a) io) \<Rightarrow> ('w mst, 'a) io" where
  "with_self f = (\<lambda>(self, s). f self (self, s))"

text \<open>
  The \<^verbatim>\<open>@lazy\<close> descriptor: an attribute already in the instance's \<^verbatim>\<open>__dict__\<close> is
  returned as it is; otherwise the decorated function runs, and its value is stored and
  returned. When the function raises, nothing is stored.
\<close>

definition lazy ::
  "('w Configuration \<Rightarrow> obj option) \<Rightarrow> (obj \<Rightarrow> 'w Configuration \<Rightarrow> 'w Configuration) \<Rightarrow>
   ('w mst, obj) io \<Rightarrow> ('w mst, obj) io" where
  "lazy slot store func =
     (\<lambda>(self, s). case slot self of
        Some value \<Rightarrow> (Inr value, (self, s))
      | None \<Rightarrow>
          (case func (self, s) of
             (Inl e, st') \<Rightarrow> (Inl e, st')
           | (Inr value, (self', s')) \<Rightarrow> (Inr value, (store value self', s'))))"

definition corpus :: "('w mst, obj) io" where
  "corpus =
     lazy corpus_slot (\<lambda>v self. self\<lparr>corpus_slot := Some v\<rparr>)
       (with_self (\<lambda>self.
          lift (call (Call_corpus_from_directory (corpus_directory self))
                  (corpus_from_directory self (corpus_directory self)))))"

definition batch_generator :: "'w externals \<Rightarrow> ('w mst, obj) io" where
  "batch_generator ext =
     lazy batch_generator_slot (\<lambda>v self. self\<lparr>batch_generator_slot := Some v\<rparr>)
       (io_bind corpus (\<lambda>c. with_self (\<lambda>self.
          lift (call (New_LabeledSpectrogramBatchGenerator c (spectrogram_cache_directory self))
                  (LabeledSpectrogramBatchGenerator ext c (spectrogram_cache_directory self))))))"

definition load_cached_corpus :: "'w externals \<Rightarrow> path \<Rightarrow> ('w, obj) extern" where
  "load_cached_corpus ext corpus_dir = Corpus_load ext (truediv corpus_dir ''corpus.csv'')"

definition english :: "'w externals \<Rightarrow> 'w Configuration" where
  "english ext =
     Configuration_init ext ''English'' (english_frequent_characters ext) (english_corpus ext)
       None None"

text \<open>
  An optional argument is an \<open>option\<close>: \<open>None\<close> is the call that leaves it out, and takes
  the default of the signature.
\<close>

definition german :: "'w externals \<Rightarrow> bool option \<Rightarrow> 'w Configuration" where
  "german ext from_cached_arg =
     (let from_cached = (case from_cached_arg of None \<Rightarrow> True | Some b \<Rightarrow> b)
      in Configuration_init ext ''German'' (german_frequent_characters ext)
           (if from_cached then load_cached_corpus ext else german_corpus ext) None None)"

section \<open>The model resolver\<close>

text \<open>
  The \<^verbatim>\<open>import\<close> statements at the head of a function body bind the names of
  collaborators; they are not events of the trace.
\<close>

definition best_model_args ::
  "'w externals \<Rightarrow> int \<Rightarrow> int \<Rightarrow> string list \<Rightarrow> bool \<Rightarrow> Wav2Letter_args" where
  "best_model_args ext mel_frequency_count frozen_layer_count chars use_ken_lm =
     \<lparr> arg_allowed_characters = chars,
       arg_input_size_per_time_step = mel_frequency_count,
       arg_load_model_from_directory =
         truediv (nets_base_directory ext)
           ''20170316-180957-adam-small-learning-rate-complete-95'',
       arg_load_epoch = 1192,
       arg_allowed_characters_for_loaded_model = english_frequent_characters ext,
       arg_frozen_layer_count = frozen_layer_count,
       arg_kenlm_directory =
         (if use_ken_lm then Some (truediv (kenlm_base_directory ext) ''english'') else None) \<rparr>"

definition load_best_wav2letter_model ::
  "'w externals \<Rightarrow> int option \<Rightarrow> int option \<Rightarrow> string list option \<Rightarrow> bool option \<Rightarrow>
   ('w st, obj) io" where
  "load_best_wav2letter_model ext mel_arg frozen_arg chars_arg use_ken_lm_arg =
     (let mel_frequency_count = (case mel_arg of None \<Rightarrow> 128 | Some n \<Rightarrow> n);
          frozen_layer_count = (case frozen_arg of None \<Rightarrow> 0 | Some n \<Rightarrow> n);
          chars = (case chars_arg of None \<Rightarrow> english_frequent_characters ext | Some cs \<Rightarrow> cs);
          use_ken_lm = (case use_ken_lm_arg of None \<Rightarrow> False | Some b \<Rightarrow> b);
          args = best_model_args ext mel_frequency_count frozen_layer_count chars use_ken_lm
      in call (New_Wav2Letter args) (Wav2Letter ext args))"

section \<open>Transfer-learning training\<close>

text \<open>\<^verbatim>\<open>"{}".format(n)\<close> for an \<^verbatim>\<open>int\<close>: decimal digits, with a minus sign below zero.\<close>

fun show_nat :: "nat \<Rightarrow> string" where
  "show_nat n =
     (if n < 10 then [''0123456789'' ! n]
      else show_nat (n div 10) @ [''0123456789'' ! (n mod 10)])"

declare show_nat.simps [simp del]

definition show_int :: "int \<Rightarrow> string" where
  "show_int i = (if i < 0 then CHR ''-'' # show_nat (nat (- i)) else show_nat (nat i))"

definition transfer_run_name :: "string \<Rightarrow> string \<Rightarrow> int \<Rightarrow> string" where
  "transfer_run_name ts nm frozen_layer_count =
     ts @ ''-adam-small-learning-rate-transfer-to-'' @ nm @ ''-freeze-''
        @ show_int frozen_layer_count"

text \<open>
  \<^verbatim>\<open>Configuration.train_transfer_from_best_english_model\<close>. The arguments of a call are
  evaluated from left to right, so \<^verbatim>\<open>self.corpus\<close> is read after the network has been
  constructed and before the cache directory is read.
\<close>

definition train_transfer_from_best_english_model ::
  "'w externals \<Rightarrow> int option \<Rightarrow> ('w mst, unit) io" where
  "train_transfer_from_best_english_model ext trainable_arg =
     (let trainable_layer_count = (case trainable_arg of None \<Rightarrow> 1 | Some n \<Rightarrow> n);
          mel_frequency_count = 128;
          batches_per_epoch = 100;
          layer_count = 11;
          frozen_layer_count = layer_count - trainable_layer_count
      in with_self (\<lambda>self.
         io_bind (lift (call Call_timestamp (timestamp ext))) (\<lambda>ts.
         let run_name = transfer_run_name ts (name self) frozen_layer_count in
         io_bind (lift (load_best_wav2letter_model ext (Some mel_frequency_count)
                          (Some frozen_layer_count) (Some (allowed_characters self)) None))
           (\<lambda>wav2letter.
         io_bind corpus (\<lambda>c. with_self (\<lambda>self.
         io_bind (lift (call (New_Wav2LetterWithCorpus wav2letter c
                                (spectrogram_cache_directory self))
                          (Wav2LetterWithCorpus ext wav2letter c
                             (spectrogram_cache_directory self)))) (\<lambda>wav2letter_with_corpus.
         lift (call (Call_train wav2letter_with_corpus
                       (truediv (tensorboard_log_base_directory ext) run_name)
                       (truediv (nets_base_directory ext) run_name) batches_per_epoch)
                 (Wav2LetterWithCorpus_train ext wav2letter_with_corpus
                    (truediv (tensorboard_log_base_directory ext) run_name)
                    (truediv (nets_base_directory ext) run_name) batches_per_epoch)))))))))"

section \<open>The prediction demo\<close>

definition predict :: "'w externals \<Rightarrow> obj \<Rightarrow> obj \<Rightarrow> ('w st, string) io" where
  "predict ext wav2letter labeled_spectrogram =
     io_bind (call (Call_z_normalized_transposed_spectrogram labeled_spectrogram)
                (z_normalized_transposed_spectrogram ext labeled_spectrogram)) (\<lambda>z.
     call (Call_predict_single wav2letter z) (predict_single ext wav2letter z))"

definition print_prediction ::
  "'w externals \<Rightarrow> obj \<Rightarrow> obj \<Rightarrow> string option \<Rightarrow> ('w st, unit) io" where
  "print_prediction ext wav2letter labeled_spectrogram description =
     io_bind (case description of
                Some d \<Rightarrow>
                  if d \<noteq> [] then io_return d
                  else call (Get_id labeled_spectrogram)
                         (LabeledSpectrogram_id ext labeled_spectrogram)
              | None \<Rightarrow>
                  call (Get_id labeled_spectrogram)
                    (LabeledSpectrogram_id ext labeled_spectrogram)) (\<lambda>label.
     io_bind (predict ext wav2letter labeled_spectrogram) (\<lambda>prediction.
     call (Call_print (label @ '': '' @ [CHR 0x22] @ prediction @ [CHR 0x22]))
       (print ext (label @ '': '' @ [CHR 0x22] @ prediction @ [CHR 0x22]))))"

definition print_prediction_from_file ::
  "'w externals \<Rightarrow> obj \<Rightarrow> string \<Rightarrow> string option \<Rightarrow> ('w st, unit) io" where
  "print_prediction_from_file ext wav2letter file_name description =
     io_bind (call (New_LabeledExample (truediv (recording_directory ext) file_name))
                (LabeledExample ext (truediv (recording_directory ext) file_name)))
       (\<lambda>example. print_prediction ext wav2letter example description)"

definition example_files :: "(string \<times> string) list" where
  "example_files =
     [(''6930-75918-0000.flac'',
       ''Sample labeled '' @ [CHR 0x22] @ ''concord returned to its place amidst the tents''
         @ [CHR 0x22]),
      (''recording-20170310-135534.wav'', ''Recorded playback of the same sample''),
      (''recording-20170310-135144.wav'', ''Recording of me saying the same sentence''),
      (''recording-20170314-224329.wav'',
       ''Recording of me saying '' @ [CHR 0x22] @ ''I just wrote a speech recognizer''
         @ [CHR 0x22]),
      (''bad-quality-louis.wav'', ''Louis' rerecording of worse quality'')]"

text \<open>
  The body of \<^verbatim>\<open>print_example_predictions\<close> prints the heading and then calls
  \<^verbatim>\<open>print_prediction_from_file\<close> five times; the five pairs of file name and description
  are the list above, taken in order.
\<close>

fun print_predictions_from_files ::
  "'w externals \<Rightarrow> obj \<Rightarrow> (string \<times> string) list \<Rightarrow> ('w st, unit) io" where
  "print_predictions_from_files ext wav2letter [] = io_return ()"
| "print_predictions_from_files ext wav2letter ((file_name, description) # rest) =
     io_bind (print_prediction_from_file ext wav2letter file_name (Some description))
       (\<lambda>_. print_predictions_from_files ext wav2letter rest)"

definition print_example_predictions :: "'w externals \<Rightarrow> obj \<Rightarrow> ('w st, unit) io" where
  "print_example_predictions ext wav2letter =
     io_bind (call (Call_print ''Predictions: '') (print ext ''Predictions: ''))
       (\<lambda>_. print_predictions_from_files ext wav2letter example_files)"

definition predict_recording :: "'w externals \<Rightarrow> ('w st, unit) io" where
  "predict_recording ext =
     io_bind (load_best_wav2letter_model ext None None None None)
       (\<lambda>wav2letter. print_example_predictions ext wav2letter)"

section \<open>A small world to run the model in\<close>

text \<open>
  The world is a counter of the objects built so far; every constructor returns a new
  object, the clock always reads the same time and nothing raises.
\<close>

definition fresh :: "(nat, obj) extern" where
  "fresh = (\<lambda>n. (Inr (Obj n), Suc n))"

definition demo :: "nat externals" where
  "demo =
     \<lparr> home_directory = Path ''/'' [''home'', ''user''],
       timestamp = (\<lambda>w. (Inr ''20170401-120000'', w)),
       english_frequent_characters = [''a'', ''b'', ''c''],
       german_frequent_characters = [''b'', ''c'', ''d''],
       english_corpus = (\<lambda>_. fresh),
       german_corpus = (\<lambda>_. fresh),
       Corpus_load = (\<lambda>_. fresh),
       LabeledSpectrogramBatchGenerator = (\<lambda>_ _. fresh),
       Wav2Letter = (\<lambda>_. fresh),
       Wav2LetterWithCorpus = (\<lambda>_ _ _. fresh),
       Wav2LetterWithCorpus_train = (\<lambda>_ _ _ _ w. (Inr (), w)),
       LabeledExample = (\<lambda>_. fresh),
       LabeledSpectrogram_id = (\<lambda>_ w. (Inr ''id'', w)),
       z_normalized_transposed_spectrogram = (\<lambda>_. fresh),
       predict_single = (\<lambda>_ _ w. (Inr ''hello'', w)),
       print = (\<lambda>_ w. (Inr (), w)) \<rparr>"

text \<open>A loader that raises on its first call and returns a corpus from then on.\<close>

definition flaky_loader :: "path \<Rightarrow> (nat, obj) extern" where
  "flaky_loader d = (\<lambda>n. if n = 0 then (Inl (Exn ''missing''), Suc n) else fresh n)"

section \<open>Sequences of accesses\<close>

text \<open>
  A caller reads the two lazy attributes of one instance any number of times, in any order,
  and goes on after an exception. The outcomes are collected in order.
\<close>

datatype access = Get_corpus | Get_batch_generator

definition access :: "'w externals \<Rightarrow> access \<Rightarrow> ('w mst, obj) io" where
  "access ext a = (case a of Get_corpus \<Rightarrow> corpus | Get_batch_generator \<Rightarrow> batch_generator ext)"

fun accesses :: "'w externals \<Rightarrow> access list \<Rightarrow> 'w mst \<Rightarrow> (exn + obj) list \<times> 'w mst" where
  "accesses ext [] st = ([], st)"
| "accesses ext (a # as) st =
     (case access ext a st of (r, st') \<Rightarrow>
        (case accesses ext as st' of (rs, st'') \<Rightarrow> (r # rs, st'')))"

fun is_corpus_call :: "event \<Rightarrow> bool" where
  "is_corpus_call (Call_corpus_from_directory d) = True"
| "is_corpus_call _ = False"

fun is_generator_build :: "event \<Rightarrow> bool" where
  "is_generator_build (New_LabeledSpectrogramBatchGenerator c d) = True"
| "is_generator_build _ = False"

section \<open>What the prediction demo leaves in the trace\<close>

fun is_model_load :: "event \<Rightarrow> bool" where
  "is_model_load (New_Wav2Letter args) = True"
| "is_model_load _ = False"

text \<open>
  The four calls of one prediction that runs to its end: the example is read from the file
  in the recording directory, its spectrogram is taken, the network predicts from it, and
  the description is printed with the prediction in double quotes.
\<close>

definition prediction_events ::
  "'w externals \<Rightarrow> obj \<Rightarrow> string \<times> string \<Rightarrow> obj \<times> obj \<times> string \<Rightarrow> event list" where
  "prediction_events ext wav2letter file_and_description outcome =
     (case file_and_description of (file_name, description) \<Rightarrow>
      case outcome of (example, z, prediction) \<Rightarrow>
        [New_LabeledExample (truediv (recording_directory ext) file_name),
         Call_z_normalized_transposed_spectrogram example,
         Call_predict_single wav2letter z,
         Call_print (description @ '': '' @ [CHR 0x22] @ prediction @ [CHR 0x22])])"

text \<open>
  What the collaborators return for one file when none of them raises: the example read
  from the file, the spectrogram of that example, the text the network predicts from that
  spectrogram, and the world after the description and that text have been printed.
\<close>

definition collaborators_predict ::
  "'w externals \<Rightarrow> obj \<Rightarrow> string \<times> string \<Rightarrow> 'w \<Rightarrow> ((obj \<times> obj \<times> string) \<times> 'w) option" where
  "collaborators_predict ext wav2letter file_and_description w =
     (case file_and_description of (file_name, description) \<Rightarrow>
      case LabeledExample ext (truediv (recording_directory ext) file_name) w of
        (Inl e, w1) \<Rightarrow> None
      | (Inr example, w1) \<Rightarrow>
          (case z_normalized_transposed_spectrogram ext example w1 of
             (Inl e, w2) \<Rightarrow> None
           | (Inr z, w2) \<Rightarrow>
               (case predict_single ext wav2letter z w2 of
                  (Inl e, w3) \<Rightarrow> None
                | (Inr prediction, w3) \<Rightarrow>
                    (case print ext (description @ '': '' @ [CHR 0x22] @ prediction @ [CHR 0x22])
                            w3 of
                       (Inl e, w4) \<Rightarrow> None
                     | (Inr u, w4) \<Rightarrow> Some ((example, z, prediction), w4)))))"

fun collaborators_predict_all ::
  "'w externals \<Rightarrow> obj \<Rightarrow> (string \<times> string) list \<Rightarrow> 'w \<Rightarrow>
   ((obj \<times> obj \<times> string) list \<times> 'w) option" where
  "collaborators_predict_all ext wav2letter [] w = Some ([], w)"
| "collaborators_predict_all ext wav2letter (fd # fds) w =
     (case collaborators_predict ext wav2letter fd w of
        None \<Rightarrow> None
      | Some (outcome, w1) \<Rightarrow>
          (case collaborators_predict_all ext wav2letter fds w1 of
             None \<Rightarrow> None
           | Some (outcomes, w') \<Rightarrow> Some (outcome # outcomes, w')))"

section \<open>Transfer of the output weights between alphabets\<close>

text \<open>
  Modelled from the spec: the reconciliation of the alphabet-dependent output layer, which
  the \<^verbatim>\<open>Wav2Letter\<close> constructor of \<^verbatim>\<open>net.py\<close> carries out and \<^verbatim>\<open>main.py\<close> only requests,
  by passing the target alphabet as \<^verbatim>\<open>allowed_characters\<close> and the trained alphabet as
  \<^verbatim>\<open>allowed_characters_for_loaded_model\<close>. As the spec words it, this is a function from
  the trained alphabet, the target alphabet and the checkpoint's weights (one entry for
  each trained symbol, in the order of the trained alphabet) to the new weights (one entry
  for each target symbol, in the order of the target alphabet) and an initialization mask.
  A target symbol that is in the trained alphabet takes the checkpoint's entry of that
  symbol; any other target symbol takes the freshly initialized entry of its position and
  is marked in the mask.
\<close>

definition transfer_output_weights ::
  "'s list \<Rightarrow> 's list \<Rightarrow> 'v list \<Rightarrow> 'v list \<Rightarrow> 'v list \<times> bool list" where
  "transfer_output_weights trained target checkpoint fresh_weights =
     (map (\<lambda>(s, f). case map_of (zip trained checkpoint) s of Some v \<Rightarrow> v | None \<Rightarrow> f)
        (zip target fresh_weights),
      map (\<lambda>s. map_of (zip trained checkpoint) s = None) target)"

section \<open>Running a computation\<close>

lemma call_apply: "call ev f (w, tr) = (fst (f w), (snd (f w), tr @ [ev]))"
  by (simp add: call_def split: prod.splits)

lemma lift_apply: "lift m (self, s) = (fst (m s), (self, snd (m s)))"
  by (simp add: lift_def split: prod.splits)

lemma with_self_apply: "with_self f (self, s) = f self (self, s)"
  by (simp add: with_self_def)

section \<open>Joining a plain name\<close>

text \<open>
  A string without \<^verbatim>\<open>/\<close> that is neither empty nor \<^verbatim>\<open>.\<close> is one name: joining it adds
  exactly that name below the path.
\<close>

lemma split_sep_plain: "CHR ''/'' \<notin> set s \<Longrightarrow> split_sep s = [s]"
  by (induction s) auto

lemma truediv_plain:
  assumes "CHR ''/'' \<notin> set s" "s \<noteq> []" "s \<noteq> ''.''"
  shows "truediv p s = Path (root p) (names p @ [s])"
proof -
  have "hd s \<noteq> CHR ''/''" using assms by (cases s) auto
  then have "splitroot s = ('''', s)" by (simp add: splitroot_def)
  then show ?thesis using assms by (simp add: truediv_def path_of_str_def split_sep_plain)
qed

lemma demo_directories:
  "corpus_base_directory demo = Path ''/'' [''home'', ''user'', ''speechless-data'', ''corpus'']"
  "spectrogram_cache_base_directory demo
     = Path ''/'' [''home'', ''user'', ''speechless-data'', ''spectrogram-cache'']"
  "nets_base_directory demo = Path ''/'' [''home'', ''user'', ''speechless-data'', ''nets'']"
  "tensorboard_log_base_directory demo
     = Path ''/'' [''home'', ''user'', ''speechless-data'', ''logs'']"
  "recording_directory demo = Path ''/'' [''home'', ''user'', ''speechless-data'', ''recordings'']"
  by (simp_all add: truediv_plain corpus_base_directory_def spectrogram_cache_base_directory_def
      nets_base_directory_def tensorboard_log_base_directory_def recording_directory_def
      base_directory_def demo_def)

section \<open>Directories of a Configuration\<close>

text \<open>
  C7, as the code has it. A Configuration built without a corpus directory has the corpus
  directory \<^verbatim>\<open>corpus_base_directory / name\<close>, and one built without a cache directory has
  the cache directory \<^verbatim>\<open>spectrogram_cache_base_directory / name\<close>. A directory that is
  given is the resolved directory, unchanged. Two Configurations that are each given both
  directories, none of the one among those of the other, work in disjoint directories. A
  directory that two Configurations of one name both leave out is the same for both,
  whatever their other directory is.
\<close>

theorem configuration_directories:
  "corpus_directory (Configuration_init ext nm chars loader None cache_dir)
     = truediv (corpus_base_directory ext) nm
   \<and> spectrogram_cache_directory (Configuration_init ext nm chars loader corpus_dir None)
     = truediv (spectrogram_cache_base_directory ext) nm
   \<and> corpus_directory (Configuration_init ext nm chars loader (Some d) cache_dir) = d
   \<and> spectrogram_cache_directory (Configuration_init ext nm chars loader corpus_dir (Some d)) = d
   \<and> ({c1, s1} \<inter> {c2, s2} = {} \<longrightarrow>
        resolved_paths (Configuration_init ext nm chars loader (Some c1) (Some s1))
          \<inter> resolved_paths (Configuration_init ext nm chars' loader' (Some c2) (Some s2)) = {})
   \<and> spectrogram_cache_directory (Configuration_init ext nm chars loader corpus_dir None)
       = spectrogram_cache_directory (Configuration_init ext nm chars' loader' corpus_dir' None)
   \<and> corpus_directory (Configuration_init ext nm chars loader None cache_dir)
       = corpus_directory (Configuration_init ext nm chars' loader' None cache_dir')"
  by (simp add: Configuration_init_def resolved_paths_def)

theorem configuration_directories_witness:
  "{Path ''/'' [''a''], Path ''/'' [''ca'']} \<inter> {Path ''/'' [''b''], Path ''/'' [''cb'']} = {}
   \<and> resolved_paths (Configuration_init demo ''German'' [] (\<lambda>_. fresh)
         (Some (Path ''/'' [''a''])) (Some (Path ''/'' [''ca''])))
       \<inter> resolved_paths (Configuration_init demo ''German'' [] (\<lambda>_. fresh)
           (Some (Path ''/'' [''b''])) (Some (Path ''/'' [''cb'']))) = {}
   \<and> corpus_directory (Configuration_init demo ''German'' [] (\<lambda>_. fresh) None None)
     = Path ''/'' [''home'', ''user'', ''speechless-data'', ''corpus'', ''German'']
   \<and> spectrogram_cache_directory (Configuration_init demo ''German'' [] (\<lambda>_. fresh) None None)
     = Path ''/'' [''home'', ''user'', ''speechless-data'', ''spectrogram-cache'', ''German'']"
proof -
  have h: "{Path ''/'' [''a''], Path ''/'' [''ca'']} \<inter> {Path ''/'' [''b''], Path ''/'' [''cb'']} = {}"
    by simp
  note t = configuration_directories [of demo "''German''" "[]" "\<lambda>_. fresh" None None
      "Path ''/'' [''a'']" "Path ''/'' [''a'']" "Path ''/'' [''ca'']" "Path ''/'' [''b'']"
      "Path ''/'' [''cb'']" "[]" "\<lambda>_. fresh" None None]
  have c1: "resolved_paths (Configuration_init demo ''German'' [] (\<lambda>_. fresh)
         (Some (Path ''/'' [''a''])) (Some (Path ''/'' [''ca''])))
       \<inter> resolved_paths (Configuration_init demo ''German'' [] (\<lambda>_. fresh)
           (Some (Path ''/'' [''b''])) (Some (Path ''/'' [''cb'']))) = {}"
    using t h by blast
  have c2: "corpus_directory (Configuration_init demo ''German'' [] (\<lambda>_. fresh) None None)
     = Path ''/'' [''home'', ''user'', ''speechless-data'', ''corpus'', ''German'']"
    using t by (simp add: truediv_plain demo_directories)
  have c3: "spectrogram_cache_directory (Configuration_init demo ''German'' [] (\<lambda>_. fresh) None None)
     = Path ''/'' [''home'', ''user'', ''speechless-data'', ''spectrogram-cache'', ''German'']"
    using t by (simp add: truediv_plain demo_directories)
  from h c1 c2 c3 show ?thesis by blast
qed


text \<open>
  C7 as stated fails: two Configurations named \<^verbatim>\<open>German\<close> that are given the different
  corpus directories \<^verbatim>\<open>/a\<close> and \<^verbatim>\<open>/b\<close> and no cache directory both resolve the cache
  directory to \<^verbatim>\<open>spectrogram-cache/German\<close> under the base directory, so their resolved
  directories are not disjoint.
\<close>

theorem same_name_shared_cache_counterexample:
  "Path ''/'' [''a''] \<noteq> Path ''/'' [''b'']
   \<and> corpus_directory (Configuration_init demo ''German'' [] (\<lambda>_. fresh)
         (Some (Path ''/'' [''a''])) None) = Path ''/'' [''a'']
   \<and> corpus_directory (Configuration_init demo ''German'' [] (\<lambda>_. fresh)
         (Some (Path ''/'' [''b''])) None) = Path ''/'' [''b'']
   \<and> resolved_paths (Configuration_init demo ''German'' [] (\<lambda>_. fresh)
         (Some (Path ''/'' [''a''])) None)
       \<inter> resolved_paths (Configuration_init demo ''German'' [] (\<lambda>_. fresh)
           (Some (Path ''/'' [''b''])) None)
       = {Path ''/'' [''home'', ''user'', ''speechless-data'', ''spectrogram-cache'', ''German'']}"
  by (auto simp add: resolved_paths_def Configuration_init_def truediv_plain demo_directories)


section \<open>The checkpoint of the best model\<close>

text \<open>
  C6. Whatever the frequency count, the frozen-layer count, the target alphabet and the
  language-model switch (each given or left out), \<^verbatim>\<open>load_best_wav2letter_model\<close> makes
  exactly one call, the construction of the network, and that call loads from the
  directory \<^verbatim>\<open>20170316-180957-adam-small-learning-rate-complete-95\<close> under the nets base
  directory, at epoch 1192, with the English alphabet as the alphabet of the loaded model.
  Its outcome is the outcome of that construction.
\<close>

theorem best_model_is_fixed:
  "\<exists>args. load_best_wav2letter_model ext mel frozen chars lm (w, tr)
            = (fst (Wav2Letter ext args w), (snd (Wav2Letter ext args w), tr @ [New_Wav2Letter args]))
      \<and> arg_load_model_from_directory args
          = truediv (nets_base_directory ext) ''20170316-180957-adam-small-learning-rate-complete-95''
      \<and> arg_load_epoch args = 1192
      \<and> arg_allowed_characters_for_loaded_model args = english_frequent_characters ext"
  by (simp add: load_best_wav2letter_model_def Let_def call_apply best_model_args_def)


section \<open>The lazy attributes\<close>

text \<open>What one read of each attribute does, by the state of its slot.\<close>

lemma corpus_apply:
  "corpus (self, (w, tr)) =
     (case corpus_slot self of
        Some c \<Rightarrow> (Inr c, (self, (w, tr)))
      | None \<Rightarrow>
          (case corpus_from_directory self (corpus_directory self) w of
             (Inl e, w') \<Rightarrow>
               (Inl e, (self, (w', tr @ [Call_corpus_from_directory (corpus_directory self)])))
           | (Inr c, w') \<Rightarrow>
               (Inr c, (self\<lparr>corpus_slot := Some c\<rparr>,
                        (w', tr @ [Call_corpus_from_directory (corpus_directory self)])))))"
  by (simp add: corpus_def lazy_def with_self_apply lift_apply call_apply
      split: option.splits prod.splits sum.splits)

lemma batch_generator_apply:
  "batch_generator ext (self, s) =
     (case batch_generator_slot self of
        Some g \<Rightarrow> (Inr g, (self, s))
      | None \<Rightarrow>
          (case corpus (self, s) of
             (Inl e, st') \<Rightarrow> (Inl e, st')
           | (Inr c, (self', (w', tr'))) \<Rightarrow>
               (case LabeledSpectrogramBatchGenerator ext c (spectrogram_cache_directory self') w' of
                  (Inl e, w'') \<Rightarrow>
                    (Inl e, (self', (w'', tr' @ [New_LabeledSpectrogramBatchGenerator c
                                                  (spectrogram_cache_directory self')])))
                | (Inr g, w'') \<Rightarrow>
                    (Inr g, (self'\<lparr>batch_generator_slot := Some g\<rparr>,
                             (w'', tr' @ [New_LabeledSpectrogramBatchGenerator c
                                            (spectrogram_cache_directory self')]))))))"
  by (simp add: batch_generator_def lazy_def io_bind_def with_self_apply lift_apply call_apply
      split: option.splits prod.splits sum.splits)

lemma english_demo:
  "corpus_slot (english demo) = None"
  "batch_generator_slot (english demo) = None"
  "corpus_directory (english demo)
     = Path ''/'' [''home'', ''user'', ''speechless-data'', ''corpus'', ''English'']"
  "spectrogram_cache_directory (english demo)
     = Path ''/'' [''home'', ''user'', ''speechless-data'', ''spectrogram-cache'', ''English'']"
  "corpus_from_directory (english demo) = (\<lambda>_. fresh)"
  "LabeledSpectrogramBatchGenerator demo = (\<lambda>_ _. fresh)"
  by (simp_all add: english_def Configuration_init_def demo_directories truediv_plain)
    (simp_all add: demo_def)

text \<open>
  C8. On an instance whose corpus is not yet stored, a loader that raises makes
  \<^verbatim>\<open>corpus\<close> raise the same exception after that single call of the loader, and leaves the
  instance as it was: nothing is stored. The next read therefore calls the loader again,
  on the corpus directory, and returns whatever the loader returns then.
\<close>

theorem corpus_failure_not_memoized:
  assumes "corpus_slot self = None"
    and "corpus_from_directory self (corpus_directory self) w = (Inl e, w')"
  shows "corpus (self, (w, tr))
           = (Inl e, (self, (w', tr @ [Call_corpus_from_directory (corpus_directory self)])))
         \<and> fst (corpus (self, (w2, tr2)))
             = fst (corpus_from_directory self (corpus_directory self) w2)
         \<and> snd (snd (snd (corpus (self, (w2, tr2)))))
             = tr2 @ [Call_corpus_from_directory (corpus_directory self)]"
  using assms by (simp add: corpus_apply split: prod.splits sum.splits)

theorem corpus_failure_not_memoized_witness:
  "corpus_slot (Configuration_init demo ''Flaky'' [] flaky_loader None None) = None
   \<and> corpus_from_directory (Configuration_init demo ''Flaky'' [] flaky_loader None None)
        (corpus_directory (Configuration_init demo ''Flaky'' [] flaky_loader None None)) 0
       = (Inl (Exn ''missing''), 1)
   \<and> corpus (Configuration_init demo ''Flaky'' [] flaky_loader None None, (0, []))
       = (Inl (Exn ''missing''),
          (Configuration_init demo ''Flaky'' [] flaky_loader None None,
           (1, [Call_corpus_from_directory
                  (Path ''/'' [''home'', ''user'', ''speechless-data'', ''corpus'', ''Flaky''])])))
   \<and> fst (corpus (Configuration_init demo ''Flaky'' [] flaky_loader None None,
                   (1, [Call_corpus_from_directory
                          (Path ''/'' [''home'', ''user'', ''speechless-data'', ''corpus'',
                                      ''Flaky''])])))
       = Inr (Obj 1)
   \<and> snd (snd (snd (corpus (Configuration_init demo ''Flaky'' [] flaky_loader None None,
                   (1, [Call_corpus_from_directory
                          (Path ''/'' [''home'', ''user'', ''speechless-data'', ''corpus'',
                                      ''Flaky''])])))))
       = [Call_corpus_from_directory
            (Path ''/'' [''home'', ''user'', ''speechless-data'', ''corpus'', ''Flaky'']),
          Call_corpus_from_directory
            (Path ''/'' [''home'', ''user'', ''speechless-data'', ''corpus'', ''Flaky''])]"
proof -
  let ?cfg = "Configuration_init demo ''Flaky'' [] flaky_loader None None"
  have dir: "corpus_directory ?cfg
               = Path ''/'' [''home'', ''user'', ''speechless-data'', ''corpus'', ''Flaky'']"
    by (simp add: Configuration_init_def demo_directories truediv_plain)
  have h1: "corpus_slot ?cfg = None" by (simp add: Configuration_init_def)
  have h2: "corpus_from_directory ?cfg (corpus_directory ?cfg) 0 = (Inl (Exn ''missing''), 1)"
    by (simp add: Configuration_init_def flaky_loader_def)
  have again: "fst (corpus_from_directory ?cfg (corpus_directory ?cfg) 1) = Inr (Obj 1)"
    by (simp add: Configuration_init_def flaky_loader_def fresh_def)
  show ?thesis
    using corpus_failure_not_memoized [OF h1 h2, of "[]" 1
        "[Call_corpus_from_directory
            (Path ''/'' [''home'', ''user'', ''speechless-data'', ''corpus'', ''Flaky''])]"]
      h1 h2 again
    by (simp add: dir)
qed


text \<open>
  Once a slot is filled, no sequence of reads empties it, calls the loader (or builds a
  generator) again, or returns anything but the stored object.
\<close>

lemma corpus_memo_kept:
  assumes "corpus_slot self = Some c"
    and "accesses ext as (self, (w, tr)) = (rs, (self', (w', tr')))"
  shows "corpus_slot self' = Some c
         \<and> filter is_corpus_call tr' = filter is_corpus_call tr
         \<and> list_all2 (\<lambda>a r. a = Get_corpus \<longrightarrow> r = Inr c) as rs"
  using assms
proof (induction as arbitrary: self w tr rs)
  case Nil
  then show ?case by simp
next
  case (Cons a as)
  obtain r self1 w1 tr1 where step: "access ext a (self, (w, tr)) = (r, (self1, (w1, tr1)))"
    by (metis prod.exhaust)
  obtain rs1 where rest: "accesses ext as (self1, (w1, tr1)) = (rs1, (self', (w', tr')))"
    and rs: "rs = r # rs1"
    using Cons.prems(2) step by (auto split: prod.splits)
  have one: "corpus_slot self1 = Some c \<and> filter is_corpus_call tr1 = filter is_corpus_call tr
             \<and> (a = Get_corpus \<longrightarrow> r = Inr c)"
    using step Cons.prems(1)
    by (cases a)
      (auto simp add: access_def corpus_apply batch_generator_apply
        split: option.splits prod.splits sum.splits)
  from Cons.IH [OF _ rest] one rs show ?case by simp
qed

lemma generator_memo_kept:
  assumes "batch_generator_slot self = Some g"
    and "accesses ext as (self, (w, tr)) = (rs, (self', (w', tr')))"
  shows "batch_generator_slot self' = Some g
         \<and> filter is_generator_build tr' = filter is_generator_build tr
         \<and> list_all2 (\<lambda>a r. a = Get_batch_generator \<longrightarrow> r = Inr g) as rs"
  using assms
proof (induction as arbitrary: self w tr rs)
  case Nil
  then show ?case by simp
next
  case (Cons a as)
  obtain r self1 w1 tr1 where step: "access ext a (self, (w, tr)) = (r, (self1, (w1, tr1)))"
    by (metis prod.exhaust)
  obtain rs1 where rest: "accesses ext as (self1, (w1, tr1)) = (rs1, (self', (w', tr')))"
    and rs: "rs = r # rs1"
    using Cons.prems(2) step by (auto split: prod.splits)
  have one: "batch_generator_slot self1 = Some g
             \<and> filter is_generator_build tr1 = filter is_generator_build tr
             \<and> (a = Get_batch_generator \<longrightarrow> r = Inr g)"
    using step Cons.prems(1)
    by (cases a)
      (auto simp add: access_def corpus_apply batch_generator_apply
        split: option.splits prod.splits sum.splits)
  from Cons.IH [OF _ rest] one rs show ?case by simp
qed


lemma corpus_first_call:
  assumes "corpus_slot self = None"
    and "corpus (self, (w, tr)) = (Inr c, (self1, (w1, tr1)))"
  shows "corpus_from_directory self (corpus_directory self) w = (Inr c, w1)
         \<and> tr1 = tr @ [Call_corpus_from_directory (corpus_directory self)]
         \<and> self1 = self\<lparr>corpus_slot := Some c\<rparr>"
  using assms by (auto simp add: corpus_apply split: prod.splits sum.splits)

lemma corpus_keeps_fields:
  assumes "corpus (self, s) = (r, (self1, s1))"
  shows "spectrogram_cache_directory self1 = spectrogram_cache_directory self
         \<and> batch_generator_slot self1 = batch_generator_slot self"
  using assms
  by (cases s) (auto simp add: corpus_apply split: option.splits prod.splits sum.splits)

lemma generator_first_call:
  assumes "batch_generator_slot self = None"
    and "batch_generator ext (self, (w, tr)) = (Inr g, (self1, (w1, tr1)))"
  shows "\<exists>c selfc wc trc.
           corpus (self, (w, tr)) = (Inr c, (selfc, (wc, trc)))
           \<and> LabeledSpectrogramBatchGenerator ext c (spectrogram_cache_directory self) wc
               = (Inr g, w1)
           \<and> tr1 = trc @ [New_LabeledSpectrogramBatchGenerator c (spectrogram_cache_directory self)]
           \<and> self1 = selfc\<lparr>batch_generator_slot := Some g\<rparr>"
proof -
  obtain r selfc wc trc where c: "corpus (self, (w, tr)) = (r, (selfc, (wc, trc)))"
    by (metis prod.exhaust)
  have dir: "spectrogram_cache_directory selfc = spectrogram_cache_directory self"
    using corpus_keeps_fields [OF c] by simp
  show ?thesis
    using assms c dir
    by (auto simp add: batch_generator_apply split: prod.splits sum.splits)
qed

text \<open>
  C4. The first read of \<^verbatim>\<open>corpus\<close> that returns has called the loader once, on the corpus
  directory, and returns the loader's corpus; every later read of it, in any sequence of
  reads of the two attributes from any world, returns that same object and calls the loader
  no more. The first read of \<^verbatim>\<open>batch_generator\<close> that returns has built the generator
  from the corpus \<^verbatim>\<open>corpus\<close> returns and the cache directory; every later read returns that
  same object and builds no other.
\<close>

theorem lazy_attributes_memoized:
  "(corpus_slot self = None \<and> corpus (self, (w, tr)) = (Inr c, (self1, (w1, tr1))) \<longrightarrow>
       corpus_from_directory self (corpus_directory self) w = (Inr c, w1)
     \<and> tr1 = tr @ [Call_corpus_from_directory (corpus_directory self)]
     \<and> (\<forall>as w2 tr2 rs self2 w3 tr3.
          accesses ext as (self1, (w2, tr2)) = (rs, (self2, (w3, tr3))) \<longrightarrow>
            filter is_corpus_call tr3 = filter is_corpus_call tr2
          \<and> list_all2 (\<lambda>a r. a = Get_corpus \<longrightarrow> r = Inr c) as rs))
   \<and> (batch_generator_slot self = None
      \<and> batch_generator ext (self, (w, tr)) = (Inr g, (self1', (w1', tr1'))) \<longrightarrow>
       (\<exists>c' selfc wc trc.
          corpus (self, (w, tr)) = (Inr c', (selfc, (wc, trc)))
        \<and> LabeledSpectrogramBatchGenerator ext c' (spectrogram_cache_directory self) wc
            = (Inr g, w1')
        \<and> tr1' = trc @ [New_LabeledSpectrogramBatchGenerator c'
                          (spectrogram_cache_directory self)])
     \<and> (\<forall>as w2 tr2 rs self2 w3 tr3.
          accesses ext as (self1', (w2, tr2)) = (rs, (self2, (w3, tr3))) \<longrightarrow>
            filter is_generator_build tr3 = filter is_generator_build tr2
          \<and> list_all2 (\<lambda>a r. a = Get_batch_generator \<longrightarrow> r = Inr g) as rs))"
proof (intro conjI impI allI; (elim conjE)?)
  assume fresh: "corpus_slot self = None"
    and first: "corpus (self, (w, tr)) = (Inr c, (self1, (w1, tr1)))"
  note f = corpus_first_call [OF fresh first]
  show "corpus_from_directory self (corpus_directory self) w = (Inr c, w1)" using f by simp
  show "tr1 = tr @ [Call_corpus_from_directory (corpus_directory self)]" using f by simp
  have slot: "corpus_slot self1 = Some c" using f by simp
  fix as w2 tr2 rs self2 w3 tr3
  assume later: "accesses ext as (self1, (w2, tr2)) = (rs, (self2, (w3, tr3)))"
  show "filter is_corpus_call tr3 = filter is_corpus_call tr2"
    using corpus_memo_kept [OF slot later] by simp
  show "list_all2 (\<lambda>a r. a = Get_corpus \<longrightarrow> r = Inr c) as rs"
    using corpus_memo_kept [OF slot later] by simp
next
  assume fresh: "batch_generator_slot self = None"
    and first: "batch_generator ext (self, (w, tr)) = (Inr g, (self1', (w1', tr1')))"
  note f = generator_first_call [OF fresh first]
  show "\<exists>c' selfc wc trc.
          corpus (self, (w, tr)) = (Inr c', (selfc, (wc, trc)))
        \<and> LabeledSpectrogramBatchGenerator ext c' (spectrogram_cache_directory self) wc
            = (Inr g, w1')
        \<and> tr1' = trc @ [New_LabeledSpectrogramBatchGenerator c'
                          (spectrogram_cache_directory self)]"
    using f by blast
  have slot: "batch_generator_slot self1' = Some g" using f by auto
  fix as w2 tr2 rs self2 w3 tr3
  assume later: "accesses ext as (self1', (w2, tr2)) = (rs, (self2, (w3, tr3)))"
  show "filter is_generator_build tr3 = filter is_generator_build tr2"
    using generator_memo_kept [OF slot later] by simp
  show "list_all2 (\<lambda>a r. a = Get_batch_generator \<longrightarrow> r = Inr g) as rs"
    using generator_memo_kept [OF slot later] by simp
qed


theorem lazy_attributes_memoized_witness:
  "corpus_slot (english demo) = None
   \<and> corpus (english demo, (0, []))
       = (Inr (Obj 0), ((english demo)\<lparr>corpus_slot := Some (Obj 0)\<rparr>,
            (1, [Call_corpus_from_directory (corpus_directory (english demo))])))
   \<and> accesses demo [Get_corpus, Get_batch_generator, Get_corpus]
        ((english demo)\<lparr>corpus_slot := Some (Obj 0)\<rparr>,
         (1, [Call_corpus_from_directory (corpus_directory (english demo))]))
       = ([Inr (Obj 0), Inr (Obj 1), Inr (Obj 0)],
          ((english demo)\<lparr>corpus_slot := Some (Obj 0), batch_generator_slot := Some (Obj 1)\<rparr>,
           (2, [Call_corpus_from_directory (corpus_directory (english demo)),
                New_LabeledSpectrogramBatchGenerator (Obj 0)
                  (spectrogram_cache_directory (english demo))])))
   \<and> batch_generator_slot (english demo) = None
   \<and> batch_generator demo (english demo, (0, []))
       = (Inr (Obj 1),
          ((english demo)\<lparr>corpus_slot := Some (Obj 0), batch_generator_slot := Some (Obj 1)\<rparr>,
           (2, [Call_corpus_from_directory (corpus_directory (english demo)),
                New_LabeledSpectrogramBatchGenerator (Obj 0)
                  (spectrogram_cache_directory (english demo))])))
   \<and> accesses demo [Get_batch_generator, Get_corpus, Get_batch_generator]
        ((english demo)\<lparr>corpus_slot := Some (Obj 0), batch_generator_slot := Some (Obj 1)\<rparr>,
         (2, [Call_corpus_from_directory (corpus_directory (english demo)),
              New_LabeledSpectrogramBatchGenerator (Obj 0)
                (spectrogram_cache_directory (english demo))]))
       = ([Inr (Obj 1), Inr (Obj 0), Inr (Obj 1)],
          ((english demo)\<lparr>corpus_slot := Some (Obj 0), batch_generator_slot := Some (Obj 1)\<rparr>,
           (2, [Call_corpus_from_directory (corpus_directory (english demo)),
                New_LabeledSpectrogramBatchGenerator (Obj 0)
                  (spectrogram_cache_directory (english demo))])))"
proof -
  let ?d = "corpus_directory (english demo)"
  let ?s = "spectrogram_cache_directory (english demo)"
  let ?self1 = "(english demo)\<lparr>corpus_slot := Some (Obj 0)\<rparr>"
  let ?self2 = "(english demo)\<lparr>corpus_slot := Some (Obj 0), batch_generator_slot := Some (Obj 1)\<rparr>"
  let ?tr1 = "[Call_corpus_from_directory ?d]"
  let ?tr2 = "[Call_corpus_from_directory ?d, New_LabeledSpectrogramBatchGenerator (Obj 0) ?s]"
  have c: "corpus (english demo, (0, [])) = (Inr (Obj 0), (?self1, (1, ?tr1)))"
    by (simp add: corpus_apply english_demo fresh_def)
  have g: "batch_generator demo (english demo, (0, [])) = (Inr (Obj 1), (?self2, (2, ?tr2)))"
    by (simp add: batch_generator_apply corpus_apply english_demo fresh_def)
  have a1: "accesses demo [Get_corpus, Get_batch_generator, Get_corpus] (?self1, (1, ?tr1))
              = ([Inr (Obj 0), Inr (Obj 1), Inr (Obj 0)], (?self2, (2, ?tr2)))"
    by (simp add: access_def batch_generator_apply corpus_apply english_demo fresh_def)
  have a2: "accesses demo [Get_batch_generator, Get_corpus, Get_batch_generator] (?self2, (2, ?tr2))
              = ([Inr (Obj 1), Inr (Obj 0), Inr (Obj 1)], (?self2, (2, ?tr2)))"
    by (simp add: access_def batch_generator_apply corpus_apply english_demo fresh_def)
  show ?thesis
    using lazy_attributes_memoized [of "english demo" 0 "[]" "Obj 0" ?self1 1 ?tr1 demo
        "Obj 1" ?self2 2 ?tr2] c g a1 a2
    by (simp add: english_demo)
qed


section \<open>The German configuration\<close>

text \<open>
  C10. \<^verbatim>\<open>Configuration.german\<close> called without \<^verbatim>\<open>from_cached\<close>, or with
  \<^verbatim>\<open>from_cached=True\<close>, has the loader that reads \<^verbatim>\<open>corpus.csv\<close> in the directory it is
  given with \<^verbatim>\<open>Corpus.load\<close>; with \<^verbatim>\<open>from_cached=False\<close> its loader is the parser
  \<^verbatim>\<open>german_corpus\<close>. Its corpus directory is \<^verbatim>\<open>corpus_base_directory / "German"\<close>
  either way; so the first read of \<^verbatim>\<open>corpus\<close> returns what \<^verbatim>\<open>Corpus.load\<close> returns for
  \<^verbatim>\<open>corpus.csv\<close> in that directory, and with \<^verbatim>\<open>from_cached=False\<close> what \<^verbatim>\<open>german_corpus\<close>
  returns for the directory.
\<close>

theorem german_from_cached:
  "corpus_from_directory (german ext None) = (\<lambda>d. Corpus_load ext (truediv d ''corpus.csv''))
   \<and> corpus_from_directory (german ext (Some True))
       = (\<lambda>d. Corpus_load ext (truediv d ''corpus.csv''))
   \<and> corpus_from_directory (german ext (Some False)) = german_corpus ext
   \<and> corpus_directory (german ext b) = truediv (corpus_base_directory ext) ''German''
   \<and> fst (corpus (german ext None, (w, tr)))
       = fst (Corpus_load ext
                (truediv (truediv (corpus_base_directory ext) ''German'') ''corpus.csv'') w)
   \<and> fst (corpus (german ext (Some False), (w, tr)))
       = fst (german_corpus ext (truediv (corpus_base_directory ext) ''German'') w)"
  by (auto simp add: german_def Configuration_init_def load_cached_corpus_def fun_eq_iff
      corpus_apply split: prod.splits sum.splits)

section \<open>Transfer-learning training, call by call\<close>

lemma load_best_apply:
  "load_best_wav2letter_model ext (Some mel) (Some frozen) (Some chars) None (w, tr) =
     (fst (Wav2Letter ext (best_model_args ext mel frozen chars False) w),
      (snd (Wav2Letter ext (best_model_args ext mel frozen chars False) w),
       tr @ [New_Wav2Letter (best_model_args ext mel frozen chars False)]))"
  by (simp add: load_best_wav2letter_model_def Let_def call_apply)

lemma train_transfer_apply:
  "train_transfer_from_best_english_model ext targ (self, (w, tr)) =
     (let frozen = 11 - (case targ of None \<Rightarrow> 1 | Some n \<Rightarrow> n);
          args = best_model_args ext 128 frozen (allowed_characters self) False
      in case timestamp ext w of
           (Inl e, w1) \<Rightarrow> (Inl e, (self, (w1, tr @ [Call_timestamp])))
         | (Inr ts, w1) \<Rightarrow>
             (case Wav2Letter ext args w1 of
                (Inl e, w2) \<Rightarrow> (Inl e, (self, (w2, tr @ [Call_timestamp, New_Wav2Letter args])))
              | (Inr m, w2) \<Rightarrow>
                  (case corpus (self, (w2, tr @ [Call_timestamp, New_Wav2Letter args])) of
                     (Inl e, st) \<Rightarrow> (Inl e, st)
                   | (Inr c, (self', (w3, tr3))) \<Rightarrow>
                       (case Wav2LetterWithCorpus ext m c (spectrogram_cache_directory self') w3 of
                          (Inl e, w4) \<Rightarrow>
                            (Inl e, (self', (w4, tr3 @ [New_Wav2LetterWithCorpus m c
                                                        (spectrogram_cache_directory self')])))
                        | (Inr wc, w4) \<Rightarrow>
                            (case Wav2LetterWithCorpus_train ext wc
                                    (truediv (tensorboard_log_base_directory ext)
                                       (transfer_run_name ts (name self) frozen))
                                    (truediv (nets_base_directory ext)
                                       (transfer_run_name ts (name self) frozen)) 100 w4 of
                               (r, w5) \<Rightarrow>
                                 (r, (self', (w5, tr3 @ [New_Wav2LetterWithCorpus m c
                                                          (spectrogram_cache_directory self'),
                                        Call_train wc
                                          (truediv (tensorboard_log_base_directory ext)
                                             (transfer_run_name ts (name self) frozen))
                                          (truediv (nets_base_directory ext)
                                             (transfer_run_name ts (name self) frozen)) 100]))))))))"
  by (simp add: train_transfer_from_best_english_model_def Let_def io_bind_def with_self_apply
      lift_apply call_apply load_best_apply
      split: option.splits prod.splits sum.splits)


lemma german_demo:
  "corpus_slot (german demo b) = None"
  "batch_generator_slot (german demo b) = None"
  "name (german demo b) = ''German''"
  "allowed_characters (german demo b) = [''b'', ''c'', ''d'']"
  "corpus_directory (german demo b)
     = Path ''/'' [''home'', ''user'', ''speechless-data'', ''corpus'', ''German'']"
  "spectrogram_cache_directory (german demo b)
     = Path ''/'' [''home'', ''user'', ''speechless-data'', ''spectrogram-cache'', ''German'']"
  "corpus_from_directory (german demo b) d = fresh"
  by (simp_all add: german_def Configuration_init_def demo_directories truediv_plain
      load_cached_corpus_def Let_def)
    (simp_all add: demo_def)

lemma demo_calls:
  "timestamp demo = (\<lambda>w. (Inr ''20170401-120000'', w))"
  "Wav2Letter demo = (\<lambda>_. fresh)"
  "Wav2LetterWithCorpus demo = (\<lambda>_ _ _. fresh)"
  "Wav2LetterWithCorpus_train demo = (\<lambda>_ _ _ _ w. (Inr (), w))"
  "english_frequent_characters demo = [''a'', ''b'', ''c'']"
  by (simp_all add: demo_def)

lemma run_names:
  "transfer_run_name ''20170401-120000'' ''German'' 10
     = ''20170401-120000-adam-small-learning-rate-transfer-to-German-freeze-10''"
  "transfer_run_name ''20170401-120000'' ''German'' 12
     = ''20170401-120000-adam-small-learning-rate-transfer-to-German-freeze-12''"
  "transfer_run_name ''20170401-120000'' ''German'' (- 1)
     = ''20170401-120000-adam-small-learning-rate-transfer-to-German-freeze--1''"
  by (simp_all add: transfer_run_name_def show_int_def show_nat.simps)

lemma demo_transfer_run:
  "train_transfer_from_best_english_model demo targ (german demo b, (0, [])) =
     (Inr (),
      ((german demo b)\<lparr>corpus_slot := Some (Obj 1)\<rparr>,
       (3, [Call_timestamp,
            New_Wav2Letter
              (best_model_args demo 128 (11 - (case targ of None \<Rightarrow> 1 | Some n \<Rightarrow> n))
                 [''b'', ''c'', ''d''] False),
            Call_corpus_from_directory
              (Path ''/'' [''home'', ''user'', ''speechless-data'', ''corpus'', ''German'']),
            New_Wav2LetterWithCorpus (Obj 0) (Obj 1)
              (Path ''/'' [''home'', ''user'', ''speechless-data'', ''spectrogram-cache'',
                          ''German'']),
            Call_train (Obj 2)
              (truediv (tensorboard_log_base_directory demo)
                 (transfer_run_name ''20170401-120000'' ''German''
                    (11 - (case targ of None \<Rightarrow> 1 | Some n \<Rightarrow> n))))
              (truediv (nets_base_directory demo)
                 (transfer_run_name ''20170401-120000'' ''German''
                    (11 - (case targ of None \<Rightarrow> 1 | Some n \<Rightarrow> n))))
              100])))"
  by (simp add: train_transfer_apply corpus_apply german_demo demo_calls fresh_def Let_def)

text \<open>
  C5. With \<open>t\<close> the trainable-layer count (1 when it is left out), once the clock has been
  read the next call is the construction of the network with \<^verbatim>\<open>frozen_layer_count\<close> equal
  to \<open>11 - t\<close>; a run that returns has ended with the call of \<^verbatim>\<open>train\<close> on the log and
  net directories named by the run name; and the run name is the timestamp, the slug, the
  Configuration's name, \<^verbatim>\<open>-freeze-\<close> and \<open>11 - t\<close> in decimal.
\<close>

theorem transfer_frozen_count:
  assumes "timestamp ext w = (Inr ts, w1)"
    and "t = (case targ of None \<Rightarrow> 1 | Some n \<Rightarrow> n)"
    and "train_transfer_from_best_english_model ext targ (self, (w, tr)) = (r, (self', (w', tr')))"
  shows "prefix (tr @ [Call_timestamp,
                       New_Wav2Letter (best_model_args ext 128 (11 - t) (allowed_characters self)
                                         False)]) tr'
         \<and> arg_frozen_layer_count (best_model_args ext 128 (11 - t) (allowed_characters self) False)
             = 11 - t
         \<and> (r = Inr () \<longrightarrow>
              (\<exists>wc. last tr' =
                 Call_train wc
                   (truediv (tensorboard_log_base_directory ext)
                      (transfer_run_name ts (name self) (11 - t)))
                   (truediv (nets_base_directory ext)
                      (transfer_run_name ts (name self) (11 - t))) 100))
         \<and> transfer_run_name ts (name self) (11 - t)
             = ts @ ''-adam-small-learning-rate-transfer-to-'' @ name self
                  @ ''-freeze-'' @ show_int (11 - t)"
proof -
  have frozen: "arg_frozen_layer_count (best_model_args ext 128 (11 - t) (allowed_characters self) False)
             = 11 - t"
    by (simp add: best_model_args_def)
  have nm: "transfer_run_name ts (name self) (11 - t)
             = ts @ ''-adam-small-learning-rate-transfer-to-'' @ name self
                  @ ''-freeze-'' @ show_int (11 - t)"
    by (simp add: transfer_run_name_def)
  have pre: "prefix (tr @ [Call_timestamp,
                       New_Wav2Letter (best_model_args ext 128 (11 - t) (allowed_characters self)
                                         False)]) tr'"
    using assms
    by (auto simp add: train_transfer_apply corpus_apply Let_def
        split: option.splits prod.splits sum.splits)
  have fin: "r = Inr () \<longrightarrow>
              (\<exists>wc. last tr' =
                 Call_train wc
                   (truediv (tensorboard_log_base_directory ext)
                      (transfer_run_name ts (name self) (11 - t)))
                   (truediv (nets_base_directory ext)
                      (transfer_run_name ts (name self) (11 - t))) 100)"
    using assms
    by (auto simp add: train_transfer_apply corpus_apply Let_def
        split: option.splits prod.splits sum.splits)
  from frozen nm pre fin show ?thesis by blast
qed


theorem transfer_frozen_count_witness:
  "timestamp demo 0 = (Inr ''20170401-120000'', 0)
   \<and> (1::int) = (case (None :: int option) of None \<Rightarrow> 1 | Some n \<Rightarrow> n)
   \<and> train_transfer_from_best_english_model demo None (german demo None, (0, []))
       = (Inr (),
          ((german demo None)\<lparr>corpus_slot := Some (Obj 1)\<rparr>,
           (3, [Call_timestamp,
                New_Wav2Letter (best_model_args demo 128 10 [''b'', ''c'', ''d''] False),
                Call_corpus_from_directory
                  (Path ''/'' [''home'', ''user'', ''speechless-data'', ''corpus'', ''German'']),
                New_Wav2LetterWithCorpus (Obj 0) (Obj 1)
                  (Path ''/'' [''home'', ''user'', ''speechless-data'', ''spectrogram-cache'',
                              ''German'']),
                Call_train (Obj 2)
                  (Path ''/'' [''home'', ''user'', ''speechless-data'', ''logs'',
                     ''20170401-120000-adam-small-learning-rate-transfer-to-German-freeze-10''])
                  (Path ''/'' [''home'', ''user'', ''speechless-data'', ''nets'',
                     ''20170401-120000-adam-small-learning-rate-transfer-to-German-freeze-10''])
                  100])))
   \<and> arg_frozen_layer_count (best_model_args demo 128 10 [''b'', ''c'', ''d''] False) = 10
   \<and> transfer_run_name ''20170401-120000'' ''German'' 10
       = ''20170401-120000-adam-small-learning-rate-transfer-to-German-freeze-10''"
proof -
  have h1: "timestamp demo 0 = (Inr ''20170401-120000'', 0)" by (simp add: demo_calls)
  have h2: "(1::int) = (case (None :: int option) of None \<Rightarrow> 1 | Some n \<Rightarrow> n)" by simp
  have h3: "train_transfer_from_best_english_model demo None (german demo None, (0, []))
       = (Inr (),
          ((german demo None)\<lparr>corpus_slot := Some (Obj 1)\<rparr>,
           (3, [Call_timestamp,
                New_Wav2Letter (best_model_args demo 128 10 [''b'', ''c'', ''d''] False),
                Call_corpus_from_directory
                  (Path ''/'' [''home'', ''user'', ''speechless-data'', ''corpus'', ''German'']),
                New_Wav2LetterWithCorpus (Obj 0) (Obj 1)
                  (Path ''/'' [''home'', ''user'', ''speechless-data'', ''spectrogram-cache'',
                              ''German'']),
                Call_train (Obj 2)
                  (Path ''/'' [''home'', ''user'', ''speechless-data'', ''logs'',
                     ''20170401-120000-adam-small-learning-rate-transfer-to-German-freeze-10''])
                  (Path ''/'' [''home'', ''user'', ''speechless-data'', ''nets'',
                     ''20170401-120000-adam-small-learning-rate-transfer-to-German-freeze-10''])
                  100])))"
    by (simp add: demo_transfer_run run_names demo_directories truediv_plain)
  have c1: "arg_frozen_layer_count (best_model_args demo 128 10 [''b'', ''c'', ''d''] False) = 10"
    using transfer_frozen_count [OF h1 h2 h3] by (simp add: german_demo)
  have c2: "transfer_run_name ''20170401-120000'' ''German'' 10
       = ''20170401-120000-adam-small-learning-rate-transfer-to-German-freeze-10''"
    by (simp add: run_names)
  from h1 h2 h3 c1 c2 show ?thesis by blast
qed


text \<open>
  C2, as the code has it. The method does not check \<^verbatim>\<open>trainable_layer_count\<close>. For every
  integer count its first action is the call of \<^verbatim>\<open>timestamp\<close>, so it never raises before
  it has called a collaborator; and when the clock, the construction of the network with
  \<open>11 - t\<close> frozen layers from the checkpoint, the corpus, the construction of the
  trainer and the training all return, the method returns normally.
\<close>

theorem transfer_does_not_validate:
  "prefix (tr @ [Call_timestamp])
     (snd (snd (snd (train_transfer_from_best_english_model ext (Some t) (self, (w, tr))))))
   \<and> (timestamp ext w = (Inr ts, w1)
      \<and> Wav2Letter ext (best_model_args ext 128 (11 - t) (allowed_characters self) False) w1
          = (Inr m, w2)
      \<and> corpus (self, (w2, tr @ [Call_timestamp,
                   New_Wav2Letter (best_model_args ext 128 (11 - t) (allowed_characters self)
                                     False)]))
          = (Inr c, (self', (w3, tr3)))
      \<and> Wav2LetterWithCorpus ext m c (spectrogram_cache_directory self') w3 = (Inr wc, w4)
      \<and> Wav2LetterWithCorpus_train ext wc
           (truediv (tensorboard_log_base_directory ext)
              (transfer_run_name ts (name self) (11 - t)))
           (truediv (nets_base_directory ext) (transfer_run_name ts (name self) (11 - t)))
           100 w4 = (Inr (), w5)
      \<longrightarrow> train_transfer_from_best_english_model ext (Some t) (self, (w, tr))
           = (Inr (), (self', (w5, tr3 @ [New_Wav2LetterWithCorpus m c
                                            (spectrogram_cache_directory self'),
                 Call_train wc
                   (truediv (tensorboard_log_base_directory ext)
                      (transfer_run_name ts (name self) (11 - t)))
                   (truediv (nets_base_directory ext)
                      (transfer_run_name ts (name self) (11 - t))) 100]))))"
proof (intro conjI impI)
  show "prefix (tr @ [Call_timestamp])
     (snd (snd (snd (train_transfer_from_best_english_model ext (Some t) (self, (w, tr))))))"
    by (auto simp add: train_transfer_apply corpus_apply Let_def
        split: option.splits prod.splits sum.splits)
next
  assume "timestamp ext w = (Inr ts, w1)
      \<and> Wav2Letter ext (best_model_args ext 128 (11 - t) (allowed_characters self) False) w1
          = (Inr m, w2)
      \<and> corpus (self, (w2, tr @ [Call_timestamp,
                   New_Wav2Letter (best_model_args ext 128 (11 - t) (allowed_characters self)
                                     False)]))
          = (Inr c, (self', (w3, tr3)))
      \<and> Wav2LetterWithCorpus ext m c (spectrogram_cache_directory self') w3 = (Inr wc, w4)
      \<and> Wav2LetterWithCorpus_train ext wc
           (truediv (tensorboard_log_base_directory ext)
              (transfer_run_name ts (name self) (11 - t)))
           (truediv (nets_base_directory ext) (transfer_run_name ts (name self) (11 - t)))
           100 w4 = (Inr (), w5)"
  then show "train_transfer_from_best_english_model ext (Some t) (self, (w, tr))
           = (Inr (), (self', (w5, tr3 @ [New_Wav2LetterWithCorpus m c
                                            (spectrogram_cache_directory self'),
                 Call_train wc
                   (truediv (tensorboard_log_base_directory ext)
                      (transfer_run_name ts (name self) (11 - t)))
                   (truediv (nets_base_directory ext)
                      (transfer_run_name ts (name self) (11 - t))) 100])))"
    by (simp add: train_transfer_apply Let_def)
qed

theorem transfer_does_not_validate_witness:
  "timestamp demo 0 = (Inr ''20170401-120000'', 0)
   \<and> Wav2Letter demo
        (best_model_args demo 128 (11 - (- 1)) (allowed_characters (german demo None)) False) 0
       = (Inr (Obj 0), 1)
   \<and> train_transfer_from_best_english_model demo (Some (- 1)) (german demo None, (0, []))
       = (Inr (),
          ((german demo None)\<lparr>corpus_slot := Some (Obj 1)\<rparr>,
           (3, [Call_timestamp,
                New_Wav2Letter (best_model_args demo 128 12 [''b'', ''c'', ''d''] False),
                Call_corpus_from_directory
                  (Path ''/'' [''home'', ''user'', ''speechless-data'', ''corpus'', ''German'']),
                New_Wav2LetterWithCorpus (Obj 0) (Obj 1)
                  (Path ''/'' [''home'', ''user'', ''speechless-data'', ''spectrogram-cache'',
                              ''German'']),
                Call_train (Obj 2)
                  (Path ''/'' [''home'', ''user'', ''speechless-data'', ''logs'',
                     ''20170401-120000-adam-small-learning-rate-transfer-to-German-freeze-12''])
                  (Path ''/'' [''home'', ''user'', ''speechless-data'', ''nets'',
                     ''20170401-120000-adam-small-learning-rate-transfer-to-German-freeze-12''])
                  100])))"
proof -
  let ?self = "german demo None"
  let ?args = "best_model_args demo 128 (11 - (- 1)) (allowed_characters ?self) False"
  let ?run = "transfer_run_name ''20170401-120000'' (name ?self) (11 - (- 1))"
  let ?tr3 = "[Call_timestamp, New_Wav2Letter ?args,
               Call_corpus_from_directory (corpus_directory ?self)]"
  have h1: "timestamp demo 0 = (Inr ''20170401-120000'', 0)" by (simp add: demo_calls)
  have h2: "Wav2Letter demo ?args 0 = (Inr (Obj 0), 1)" by (simp add: demo_calls fresh_def)
  have h3: "corpus (?self, (1, [] @ [Call_timestamp, New_Wav2Letter ?args]))
              = (Inr (Obj 1), (?self\<lparr>corpus_slot := Some (Obj 1)\<rparr>, (2, ?tr3)))"
    by (simp add: corpus_apply german_demo fresh_def)
  have h4: "Wav2LetterWithCorpus demo (Obj 0) (Obj 1)
              (spectrogram_cache_directory (?self\<lparr>corpus_slot := Some (Obj 1)\<rparr>)) 2
              = (Inr (Obj 2), 3)"
    by (simp add: demo_calls fresh_def)
  have h5: "Wav2LetterWithCorpus_train demo (Obj 2)
              (truediv (tensorboard_log_base_directory demo) ?run)
              (truediv (nets_base_directory demo) ?run) 100 3 = (Inr (), 3)"
    by (simp add: demo_calls)
  have r: "train_transfer_from_best_english_model demo (Some (- 1)) (?self, (0, []))
           = (Inr (), (?self\<lparr>corpus_slot := Some (Obj 1)\<rparr>,
                (3, ?tr3 @ [New_Wav2LetterWithCorpus (Obj 0) (Obj 1)
                              (spectrogram_cache_directory (?self\<lparr>corpus_slot := Some (Obj 1)\<rparr>)),
                   Call_train (Obj 2) (truediv (tensorboard_log_base_directory demo) ?run)
                     (truediv (nets_base_directory demo) ?run) 100])))"
    using transfer_does_not_validate [of "[]" demo "- 1" ?self 0 "''20170401-120000''" 0
        "Obj 0" 1 "Obj 1" "?self\<lparr>corpus_slot := Some (Obj 1)\<rparr>" 2 ?tr3 "Obj 2" 3 3]
      h1 h2 h3 h4 h5
    by blast
  have c: "train_transfer_from_best_english_model demo (Some (- 1)) (german demo None, (0, []))
       = (Inr (),
          ((german demo None)\<lparr>corpus_slot := Some (Obj 1)\<rparr>,
           (3, [Call_timestamp,
                New_Wav2Letter (best_model_args demo 128 12 [''b'', ''c'', ''d''] False),
                Call_corpus_from_directory
                  (Path ''/'' [''home'', ''user'', ''speechless-data'', ''corpus'', ''German'']),
                New_Wav2LetterWithCorpus (Obj 0) (Obj 1)
                  (Path ''/'' [''home'', ''user'', ''speechless-data'', ''spectrogram-cache'',
                              ''German'']),
                Call_train (Obj 2)
                  (Path ''/'' [''home'', ''user'', ''speechless-data'', ''logs'',
                     ''20170401-120000-adam-small-learning-rate-transfer-to-German-freeze-12''])
                  (Path ''/'' [''home'', ''user'', ''speechless-data'', ''nets'',
                     ''20170401-120000-adam-small-learning-rate-transfer-to-German-freeze-12''])
                  100])))"
    unfolding r by (simp add: german_demo run_names demo_directories truediv_plain)
  from h1 h2 c show ?thesis by blast
qed

text \<open>
  C2 as stated fails: with the count 12, above the 11 layers, in a world where no
  collaborator raises, the method reads the clock, constructs the network from the
  checkpoint with \<open>-1\<close> frozen layers, loads the corpus and trains, and returns normally.
\<close>

theorem out_of_range_count_counterexample:
  "fst (train_transfer_from_best_english_model demo (Some 12) (german demo None, (0, [])))
     = Inr ()
   \<and> snd (snd (snd (train_transfer_from_best_english_model demo (Some 12)
                      (german demo None, (0, [])))))
     = [Call_timestamp,
        New_Wav2Letter
          \<lparr> arg_allowed_characters = [''b'', ''c'', ''d''],
            arg_input_size_per_time_step = 128,
            arg_load_model_from_directory =
              Path ''/'' [''home'', ''user'', ''speechless-data'', ''nets'',
                          ''20170316-180957-adam-small-learning-rate-complete-95''],
            arg_load_epoch = 1192,
            arg_allowed_characters_for_loaded_model = [''a'', ''b'', ''c''],
            arg_frozen_layer_count = - 1,
            arg_kenlm_directory = None \<rparr>,
        Call_corpus_from_directory
          (Path ''/'' [''home'', ''user'', ''speechless-data'', ''corpus'', ''German'']),
        New_Wav2LetterWithCorpus (Obj 0) (Obj 1)
          (Path ''/'' [''home'', ''user'', ''speechless-data'', ''spectrogram-cache'', ''German'']),
        Call_train (Obj 2)
          (Path ''/'' [''home'', ''user'', ''speechless-data'', ''logs'',
             ''20170401-120000-adam-small-learning-rate-transfer-to-German-freeze--1''])
          (Path ''/'' [''home'', ''user'', ''speechless-data'', ''nets'',
             ''20170401-120000-adam-small-learning-rate-transfer-to-German-freeze--1''])
          100]"
  by (simp add: train_transfer_apply corpus_apply german_demo demo_calls fresh_def
      best_model_args_def demo_directories run_names truediv_plain)


section \<open>The run name\<close>

text \<open>Decimal digits are distinct, so the decimal form determines the number.\<close>

lemma digit_inj:
  assumes "a < 10" "b < 10" "''0123456789'' ! a = ''0123456789'' ! b"
  shows "a = b"
proof -
  have "distinct ''0123456789''" by simp
  moreover have "a < length ''0123456789''" "b < length ''0123456789''" using assms by simp_all
  ultimately show ?thesis using assms(3) nth_eq_iff_index_eq by blast
qed

lemma show_nat_digits: "set (show_nat n) \<subseteq> set ''0123456789''"
proof (induction n rule: show_nat.induct)
  case (1 n)
  have d: "\<And>k. k < 10 \<Longrightarrow> ''0123456789'' ! k \<in> set ''0123456789''"
    by (rule nth_mem) simp
  show ?case
  proof (cases "n < 10")
    case True
    then show ?thesis using d [of n] by (subst show_nat.simps) simp
  next
    case False
    then show ?thesis using "1.IH" d [of "n mod 10"] by (subst show_nat.simps) simp
  qed
qed

lemma show_nat_nonempty: "show_nat n \<noteq> []"
  by (subst show_nat.simps) simp

lemma show_nat_inj: "show_nat n = show_nat m \<Longrightarrow> n = m"
proof (induction n arbitrary: m rule: show_nat.induct)
  case (1 n)
  show ?case
  proof (cases "n < 10")
    case small: True
    show ?thesis
    proof (cases "m < 10")
      case True
      then show ?thesis using small "1.prems" digit_inj [of n m]
        by (simp add: show_nat.simps [of n] show_nat.simps [of m])
    next
      case False
      then show ?thesis using small "1.prems" show_nat_nonempty [of "m div 10"]
        by (simp add: show_nat.simps [of n] show_nat.simps [of m])
    qed
  next
    case big: False
    show ?thesis
    proof (cases "m < 10")
      case True
      then show ?thesis using big "1.prems" show_nat_nonempty [of "n div 10"]
        by (simp add: show_nat.simps [of n] show_nat.simps [of m])
    next
      case False
      from big False "1.prems"
      have eq: "show_nat (n div 10) = show_nat (m div 10)"
        and dg: "''0123456789'' ! (n mod 10) = ''0123456789'' ! (m mod 10)"
        by (simp_all add: show_nat.simps [of n] show_nat.simps [of m])
      have "n div 10 = m div 10" using "1.IH" [OF big eq] .
      moreover have "n mod 10 = m mod 10" using digit_inj [OF _ _ dg] by simp
      ultimately show ?thesis by (metis div_mult_mod_eq)
    qed
  qed
qed

lemma show_nat_no_minus: "CHR ''-'' \<notin> set (show_nat n)"
  using show_nat_digits [of n] by auto

lemma show_int_inj: "show_int i = show_int j \<Longrightarrow> i = j"
proof -
  assume eq: "show_int i = show_int j"
  have hd_nat: "\<And>n. hd (show_nat n) \<noteq> CHR ''-''"
    using show_nat_no_minus show_nat_nonempty by (metis list.set_sel(1))
  show ?thesis
  proof (cases "i < 0")
    case ineg: True
    show ?thesis
    proof (cases "j < 0")
      case True
      then have "nat (- i) = nat (- j)" using eq ineg show_nat_inj by (simp add: show_int_def)
      then show ?thesis using ineg True by simp
    next
      case False
      then have "hd (show_nat (nat j)) = CHR ''-''" using eq ineg
        by (simp add: show_int_def) (metis list.sel(1))
      then show ?thesis using hd_nat by blast
    qed
  next
    case ipos: False
    show ?thesis
    proof (cases "j < 0")
      case True
      then have "hd (show_nat (nat i)) = CHR ''-''" using eq ipos
        by (simp add: show_int_def)
      then show ?thesis using hd_nat by blast
    next
      case False
      then have "nat i = nat j" using eq ipos show_nat_inj by (simp add: show_int_def)
      then show ?thesis using ipos False by simp
    qed
  qed
qed

lemma show_int_no_z: "CHR ''z'' \<notin> set (show_int i)"
  using show_nat_digits [of "nat i"] show_nat_digits [of "nat (- i)"]
  by (auto simp add: show_int_def)

lemma first_occurrence:
  "x \<notin> set p \<Longrightarrow> x \<notin> set p' \<Longrightarrow> p @ x # s = p' @ x # s' \<Longrightarrow> p = p' \<and> s = s'"
proof (induction p arbitrary: p')
  case Nil
  then show ?case by (cases p') auto
next
  case (Cons a p)
  then show ?case by (cases p') auto
qed

lemma last_occurrence:
  assumes "u @ x # v = u' @ x # v'" "x \<notin> set v" "x \<notin> set v'"
  shows "u = u' \<and> v = v'"
proof -
  have "rev (u @ x # v) = rev (u' @ x # v')" using assms(1) by simp
  then have "rev v @ x # rev u = rev v' @ x # rev u'" by simp
  moreover have "x \<notin> set (rev v)" "x \<notin> set (rev v')" using assms(2,3) by simp_all
  ultimately have "rev v = rev v' \<and> rev u = rev u'" by (rule first_occurrence [rotated 2])
  then show ?thesis by simp
qed

text \<open>
  C3, as the code has it. The run name is built from the timestamp, the name of the
  Configuration being trained (the target) and the frozen-layer count. Among run names
  whose timestamps have one length, the run name determines all three: the name and the
  count can be read back from it.
\<close>

theorem run_name_decodes:
  assumes "length ts = length ts'"
    and "transfer_run_name ts nm k = transfer_run_name ts' nm' k'"
  shows "ts = ts' \<and> nm = nm' \<and> k = k'"
proof -
  from assms have ts: "ts = ts'"
    and rest: "nm @ ''-freeze-'' @ show_int k = nm' @ ''-freeze-'' @ show_int k'"
    by (simp_all add: transfer_run_name_def)
  have "(nm @ ''-free'') @ CHR ''z'' # (''e-'' @ show_int k)
          = (nm' @ ''-free'') @ CHR ''z'' # (''e-'' @ show_int k')"
    using rest by simp
  then have "nm @ ''-free'' = nm' @ ''-free'' \<and> ''e-'' @ show_int k = ''e-'' @ show_int k'"
    by (rule last_occurrence) (simp_all add: show_int_no_z)
  then have "nm = nm'" and "show_int k = show_int k'" by simp_all
  with ts show ?thesis using show_int_inj by blast
qed


theorem run_name_decodes_witness:
  "length ''20170401-120000'' = length ''20170401-120000''
   \<and> transfer_run_name ''20170401-120000'' ''German'' 10
       = transfer_run_name ''20170401-120000'' ''German'' 10
   \<and> transfer_run_name ''20170401-120000'' ''German'' 10
       \<noteq> transfer_run_name ''20170401-120000'' ''German'' 1
   \<and> transfer_run_name ''20170401-120000'' ''German'' 10
       \<noteq> transfer_run_name ''20170401-120000'' ''English'' 10"
  using run_name_decodes [of "''20170401-120000''" "''20170401-120000''" "''German''" 10
      "''German''" 10]
    run_name_decodes [of "''20170401-120000''" "''20170401-120000''" "''German''" 10
      "''German''" 1]
    run_name_decodes [of "''20170401-120000''" "''20170401-120000''" "''German''" 10
      "''English''" 10]
  by auto

text \<open>
  C3 as stated fails: the name of the source configuration is not in the run name. The run
  name of a transfer to the German configuration contains neither \<^verbatim>\<open>English\<close> nor
  \<^verbatim>\<open>english\<close>.
\<close>

theorem run_name_source_counterexample:
  "\<not> sublist ''English'' (transfer_run_name ''20170401-120000'' ''German'' 10)
   \<and> \<not> sublist ''english'' (transfer_run_name ''20170401-120000'' ''German'' 10)"
  by code_simp


section \<open>The prediction demo, call by call\<close>

lemma load_best_default_apply:
  "load_best_wav2letter_model ext None None None None (w, tr) =
     (fst (Wav2Letter ext (best_model_args ext 128 0 (english_frequent_characters ext) False) w),
      (snd (Wav2Letter ext (best_model_args ext 128 0 (english_frequent_characters ext) False) w),
       tr @ [New_Wav2Letter
               (best_model_args ext 128 0 (english_frequent_characters ext) False)]))"
  by (simp add: load_best_wav2letter_model_def Let_def call_apply)

lemma print_prediction_from_file_apply:
  assumes "description \<noteq> []"
  shows "print_prediction_from_file ext m file_name (Some description) (w, tr) =
     (case LabeledExample ext (truediv (recording_directory ext) file_name) w of
        (Inl e, w1) \<Rightarrow>
          (Inl e, (w1, tr @ [New_LabeledExample (truediv (recording_directory ext) file_name)]))
      | (Inr example, w1) \<Rightarrow>
          (case z_normalized_transposed_spectrogram ext example w1 of
             (Inl e, w2) \<Rightarrow>
               (Inl e, (w2, tr @ [New_LabeledExample (truediv (recording_directory ext) file_name),
                                  Call_z_normalized_transposed_spectrogram example]))
           | (Inr z, w2) \<Rightarrow>
               (case predict_single ext m z w2 of
                  (Inl e, w3) \<Rightarrow>
                    (Inl e, (w3, tr @ [New_LabeledExample
                                         (truediv (recording_directory ext) file_name),
                                       Call_z_normalized_transposed_spectrogram example,
                                       Call_predict_single m z]))
                | (Inr prediction, w3) \<Rightarrow>
                    (case print ext (description @ '': '' @ [CHR 0x22] @ prediction @ [CHR 0x22])
                            w3 of
                       (r, w4) \<Rightarrow>
                         (r, (w4, tr @ prediction_events ext m (file_name, description)
                                         (example, z, prediction)))))))"
  using assms
  by (simp add: print_prediction_from_file_def print_prediction_def predict_def io_bind_def
      io_return_def call_apply prediction_events_def
      split: prod.splits sum.splits)

lemma print_prediction_from_file_returns:
  assumes "description \<noteq> []"
  shows "(print_prediction_from_file ext m file_name (Some description) (w, tr)
            = (Inr (), (w', tr')))
         = (\<exists>outcome. collaborators_predict ext m (file_name, description) w = Some (outcome, w')
              \<and> tr' = tr @ prediction_events ext m (file_name, description) outcome)"
  by (auto simp add: print_prediction_from_file_apply [OF assms] collaborators_predict_def
      split: prod.splits sum.splits)

lemma collaborators_predict_all_length:
  "collaborators_predict_all ext m fds w = Some (outcomes, w') \<Longrightarrow> length outcomes = length fds"
  by (induction fds arbitrary: w outcomes) (auto split: option.splits)

lemma print_prediction_from_file_loads_nothing:
  assumes "description \<noteq> []"
    and "print_prediction_from_file ext m file_name (Some description) (w, tr)
           = (r, (w', tr'))"
  shows "filter is_model_load tr' = filter is_model_load tr"
  using assms(2)
  by (auto simp add: print_prediction_from_file_apply [OF assms(1)] prediction_events_def
      split: prod.splits sum.splits)

lemma print_predictions_return:
  assumes "\<forall>fd \<in> set fds. snd fd \<noteq> []"
  shows "(print_predictions_from_files ext m fds (w, tr) = (Inr (), (w', tr')))
         = (\<exists>outcomes. collaborators_predict_all ext m fds w = Some (outcomes, w')
              \<and> tr' = tr @ concat (map2 (prediction_events ext m) fds outcomes))"
  using assms
proof (induction fds arbitrary: w tr)
  case Nil
  then show ?case by (auto simp add: io_return_def)
next
  case (Cons fd fds)
  obtain file_name description where fd: "fd = (file_name, description)" by (cases fd)
  have d: "description \<noteq> []" using Cons.prems fd by simp
  have rest: "\<forall>fd \<in> set fds. snd fd \<noteq> []" using Cons.prems by simp
  note one = print_prediction_from_file_returns [OF d, of ext m file_name]
  note more = Cons.IH [OF rest]
  show ?case
  proof
    assume run: "print_predictions_from_files ext m (fd # fds) (w, tr) = (Inr (), (w', tr'))"
    obtain r1 w1 tr1 where
      first: "print_prediction_from_file ext m file_name (Some description) (w, tr)
                = (r1, (w1, tr1))"
      by (metis prod.exhaust)
    from run fd first have r1: "r1 = Inr ()"
      and tail: "print_predictions_from_files ext m fds (w1, tr1) = (Inr (), (w', tr'))"
      by (cases r1; simp add: io_bind_def)+
    from first r1 one obtain outcome where
      o: "collaborators_predict ext m (file_name, description) w = Some (outcome, w1)"
      and tr1: "tr1 = tr @ prediction_events ext m (file_name, description) outcome"
      by auto
    from tail more obtain outcomes where
      os: "collaborators_predict_all ext m fds w1 = Some (outcomes, w')"
      and tr': "tr' = tr1 @ concat (map2 (prediction_events ext m) fds outcomes)"
      by auto
    have "collaborators_predict_all ext m (fd # fds) w = Some (outcome # outcomes, w')
          \<and> tr' = tr @ concat (map2 (prediction_events ext m) (fd # fds) (outcome # outcomes))"
      using o os tr1 tr' fd by simp
    then show "\<exists>outcomes. collaborators_predict_all ext m (fd # fds) w = Some (outcomes, w')
              \<and> tr' = tr @ concat (map2 (prediction_events ext m) (fd # fds) outcomes)"
      by blast
  next
    assume "\<exists>outcomes. collaborators_predict_all ext m (fd # fds) w = Some (outcomes, w')
              \<and> tr' = tr @ concat (map2 (prediction_events ext m) (fd # fds) outcomes)"
    then obtain all_outcomes where
      all: "collaborators_predict_all ext m (fd # fds) w = Some (all_outcomes, w')"
      and tr': "tr' = tr @ concat (map2 (prediction_events ext m) (fd # fds) all_outcomes)"
      by blast
    from all fd obtain outcome w1 outcomes where
      o: "collaborators_predict ext m (file_name, description) w = Some (outcome, w1)"
      and os: "collaborators_predict_all ext m fds w1 = Some (outcomes, w')"
      and split: "all_outcomes = outcome # outcomes"
      by (auto split: option.splits)
    have first: "print_prediction_from_file ext m file_name (Some description) (w, tr)
                = (Inr (), (w1, tr @ prediction_events ext m (file_name, description) outcome))"
      by (rule iffD2 [OF one]) (use o in blast)
    have tail: "print_predictions_from_files ext m fds
                  (w1, tr @ prediction_events ext m (file_name, description) outcome)
                = (Inr (), (w', tr'))"
      using more os tr' split fd by simp
    show "print_predictions_from_files ext m (fd # fds) (w, tr) = (Inr (), (w', tr'))"
      using first tail fd by (simp add: io_bind_def)
  qed
qed

lemma print_predictions_load_nothing:
  assumes "\<forall>fd \<in> set fds. snd fd \<noteq> []"
    and "print_predictions_from_files ext m fds (w, tr) = (r, (w', tr'))"
  shows "filter is_model_load tr' = filter is_model_load tr"
  using assms
proof (induction fds arbitrary: w tr)
  case Nil
  then show ?case by (simp add: io_return_def)
next
  case (Cons fd fds)
  obtain file_name description where fd: "fd = (file_name, description)" by (cases fd)
  have d: "description \<noteq> []" using Cons.prems(1) fd by simp
  obtain r1 w1 tr1 where
    one: "print_prediction_from_file ext m file_name (Some description) (w, tr) = (r1, (w1, tr1))"
    by (metis prod.exhaust)
  have keep: "filter is_model_load tr1 = filter is_model_load tr"
    using print_prediction_from_file_loads_nothing [OF d one] .
  show ?case
  proof (cases r1)
    case (Inl e)
    then show ?thesis using Cons.prems(2) fd one keep by (simp add: io_bind_def)
  next
    case (Inr u1)
    then have rest: "print_predictions_from_files ext m fds (w1, tr1) = (r, (w', tr'))"
      using Cons.prems(2) fd one by (simp add: io_bind_def)
    from Cons.IH [OF _ rest] Cons.prems(1) keep show ?thesis by simp
  qed
qed

lemma example_descriptions: "\<forall>fd \<in> set example_files. snd fd \<noteq> []"
  by (simp add: example_files_def)


lemma predict_recording_apply:
  "predict_recording ext (w, tr) =
     (case Wav2Letter ext (best_model_args ext 128 0 (english_frequent_characters ext) False) w of
        (Inl e, w1) \<Rightarrow>
          (Inl e, (w1, tr @ [New_Wav2Letter
                               (best_model_args ext 128 0 (english_frequent_characters ext)
                                  False)]))
      | (Inr m, w1) \<Rightarrow>
          (case print ext ''Predictions: '' w1 of
             (Inl e, w2) \<Rightarrow>
               (Inl e, (w2, tr @ [New_Wav2Letter
                                    (best_model_args ext 128 0 (english_frequent_characters ext)
                                       False),
                                  Call_print ''Predictions: '']))
           | (Inr u, w2) \<Rightarrow>
               print_predictions_from_files ext m example_files
                 (w2, tr @ [New_Wav2Letter
                              (best_model_args ext 128 0 (english_frequent_characters ext) False),
                            Call_print ''Predictions: ''])))"
  by (simp add: predict_recording_def print_example_predictions_def io_bind_def
      load_best_default_apply call_apply split: prod.splits sum.splits)

lemma demo_prediction_calls:
  "LabeledExample demo = (\<lambda>_. fresh)"
  "z_normalized_transposed_spectrogram demo = (\<lambda>_. fresh)"
  "predict_single demo = (\<lambda>_ _ w. (Inr ''hello'', w))"
  "print demo = (\<lambda>_ w. (Inr (), w))"
  by (simp_all add: demo_def)

lemma demo_predict_recording:
  "predict_recording demo (0, []) =
     (Inr (),
      (11, [New_Wav2Letter (best_model_args demo 128 0 [''a'', ''b'', ''c''] False),
            Call_print ''Predictions: '']
           @ concat (map2 (prediction_events demo (Obj 0)) example_files
               [(Obj 1, Obj 2, ''hello''), (Obj 3, Obj 4, ''hello''), (Obj 5, Obj 6, ''hello''),
                (Obj 7, Obj 8, ''hello''), (Obj 9, Obj 10, ''hello'')])))"
  by (simp add: predict_recording_apply example_files_def io_bind_def io_return_def
      print_prediction_from_file_apply demo_calls demo_prediction_calls fresh_def
      eval_nat_numeral)

lemma demo_collaborators_predict_all:
  "collaborators_predict_all demo (Obj 0) example_files 1
     = Some ([(Obj 1, Obj 2, ''hello''), (Obj 3, Obj 4, ''hello''), (Obj 5, Obj 6, ''hello''),
              (Obj 7, Obj 8, ''hello''), (Obj 9, Obj 10, ''hello'')], 11)"
  by (simp add: example_files_def collaborators_predict_def demo_prediction_calls fresh_def
      eval_nat_numeral)

text \<open>
  C9. \<^verbatim>\<open>predict_recording\<close> takes no Configuration. However it ends, it has constructed
  the network exactly once, with every argument at its default: the English alphabet as the
  target alphabet, no frozen layer and no language-model directory. It returns exactly
  when that construction, the printing of the heading and, for each of the five files in
  order, the reading of the example, the taking of its spectrogram, the prediction and the
  printing all return. Then each example is the one read from its file in the recording
  directory, each spectrogram is the one taken from that example, each prediction is the
  text that \<^verbatim>\<open>predict_single\<close> of the network returned by the one construction gives
  for that spectrogram, and each printed line is the description followed by that text in
  double quotes; the trace is these calls in this order and nothing else.
\<close>

theorem predict_recording_resolves_once:
  assumes "predict_recording ext (w, tr) = (r, (w', tr'))"
  shows "filter is_model_load tr'
           = filter is_model_load tr
             @ [New_Wav2Letter (best_model_args ext 128 0 (english_frequent_characters ext) False)]
    \<and> arg_allowed_characters (best_model_args ext 128 0 (english_frequent_characters ext) False)
        = english_frequent_characters ext
    \<and> arg_frozen_layer_count (best_model_args ext 128 0 (english_frequent_characters ext) False)
        = 0
    \<and> arg_kenlm_directory (best_model_args ext 128 0 (english_frequent_characters ext) False)
        = None
    \<and> ((r = Inr ()) =
         (\<exists>m w1 w2 outcomes.
            Wav2Letter ext (best_model_args ext 128 0 (english_frequent_characters ext) False) w
              = (Inr m, w1)
          \<and> print ext ''Predictions: '' w1 = (Inr (), w2)
          \<and> collaborators_predict_all ext m example_files w2 = Some (outcomes, w')
          \<and> length outcomes = 5
          \<and> tr' = tr @ [New_Wav2Letter
                          (best_model_args ext 128 0 (english_frequent_characters ext) False),
                        Call_print ''Predictions: '']
                     @ concat (map2 (prediction_events ext m) example_files outcomes)))
    \<and> map fst example_files
        = [''6930-75918-0000.flac'', ''recording-20170310-135534.wav'',
           ''recording-20170310-135144.wav'', ''recording-20170314-224329.wav'',
           ''bad-quality-louis.wav'']"
proof -
  let ?args = "best_model_args ext 128 0 (english_frequent_characters ext) False"
  have a1: "arg_allowed_characters ?args = english_frequent_characters ext"
    and a2: "arg_frozen_layer_count ?args = 0"
    and a3: "arg_kenlm_directory ?args = None"
    by (simp_all add: best_model_args_def)
  have files: "map fst example_files
        = [''6930-75918-0000.flac'', ''recording-20170310-135534.wav'',
           ''recording-20170310-135144.wav'', ''recording-20170314-224329.wav'',
           ''bad-quality-louis.wav'']"
    by (simp add: example_files_def)
  have five: "length example_files = 5" by (simp add: example_files_def)
  obtain rm w1 where load: "Wav2Letter ext ?args w = (rm, w1)" by (metis prod.exhaust)
  have once: "filter is_model_load tr' = filter is_model_load tr @ [New_Wav2Letter ?args]"
  proof (cases rm)
    case (Inl e)
    then show ?thesis using assms load by (auto simp add: predict_recording_apply)
  next
    case m: (Inr m)
    obtain rp w2 where pr: "print ext ''Predictions: '' w1 = (rp, w2)" by (metis prod.exhaust)
    show ?thesis
    proof (cases rp)
      case (Inl e)
      then show ?thesis using assms load m pr by (auto simp add: predict_recording_apply)
    next
      case (Inr u)
      then have rest: "print_predictions_from_files ext m example_files
                 (w2, tr @ [New_Wav2Letter ?args, Call_print ''Predictions: '']) = (r, (w', tr'))"
        using assms load m pr by (simp add: predict_recording_apply)
      from print_predictions_load_nothing [OF example_descriptions rest]
      show ?thesis by simp
    qed
  qed
  have completed: "(r = Inr ()) =
         (\<exists>m w1 w2 outcomes.
            Wav2Letter ext ?args w = (Inr m, w1)
          \<and> print ext ''Predictions: '' w1 = (Inr (), w2)
          \<and> collaborators_predict_all ext m example_files w2 = Some (outcomes, w')
          \<and> length outcomes = 5
          \<and> tr' = tr @ [New_Wav2Letter ?args, Call_print ''Predictions: '']
                     @ concat (map2 (prediction_events ext m) example_files outcomes))"
  proof
    assume r: "r = Inr ()"
    from assms r load obtain m where m: "rm = Inr m"
      by (cases rm) (auto simp add: predict_recording_apply)
    obtain rp w2 where pr: "print ext ''Predictions: '' w1 = (rp, w2)" by (metis prod.exhaust)
    from assms r load m pr have u: "rp = Inr ()"
      by (cases rp) (auto simp add: predict_recording_apply)
    have rest: "print_predictions_from_files ext m example_files
                 (w2, tr @ [New_Wav2Letter ?args, Call_print ''Predictions: ''])
                = (Inr (), (w', tr'))"
      using assms r load m pr u by (simp add: predict_recording_apply)
    from iffD1 [OF print_predictions_return [OF example_descriptions] rest]
    obtain outcomes where os: "collaborators_predict_all ext m example_files w2 = Some (outcomes, w')"
      and tr1: "tr' = (tr @ [New_Wav2Letter ?args, Call_print ''Predictions: ''])
                   @ concat (map2 (prediction_events ext m) example_files outcomes)"
      by blast
    have len: "length outcomes = 5" using collaborators_predict_all_length [OF os] five by simp
    have l: "Wav2Letter ext ?args w = (Inr m, w1)" using load m by simp
    have p: "print ext ''Predictions: '' w1 = (Inr (), w2)" using pr u by simp
    have tr2: "tr' = tr @ [New_Wav2Letter ?args, Call_print ''Predictions: '']
                     @ concat (map2 (prediction_events ext m) example_files outcomes)"
      using tr1 by simp
    from l p os len tr2 show "\<exists>m w1 w2 outcomes.
            Wav2Letter ext ?args w = (Inr m, w1)
          \<and> print ext ''Predictions: '' w1 = (Inr (), w2)
          \<and> collaborators_predict_all ext m example_files w2 = Some (outcomes, w')
          \<and> length outcomes = 5
          \<and> tr' = tr @ [New_Wav2Letter ?args, Call_print ''Predictions: '']
                     @ concat (map2 (prediction_events ext m) example_files outcomes)"
      by blast
  next
    assume "\<exists>m w1 w2 outcomes.
            Wav2Letter ext ?args w = (Inr m, w1)
          \<and> print ext ''Predictions: '' w1 = (Inr (), w2)
          \<and> collaborators_predict_all ext m example_files w2 = Some (outcomes, w')
          \<and> length outcomes = 5
          \<and> tr' = tr @ [New_Wav2Letter ?args, Call_print ''Predictions: '']
                     @ concat (map2 (prediction_events ext m) example_files outcomes)"
    then obtain m w1' w2 outcomes where
      l: "Wav2Letter ext ?args w = (Inr m, w1')"
      and p: "print ext ''Predictions: '' w1' = (Inr (), w2)"
      and os: "collaborators_predict_all ext m example_files w2 = Some (outcomes, w')"
      and tr1: "tr' = tr @ [New_Wav2Letter ?args, Call_print ''Predictions: '']
                   @ concat (map2 (prediction_events ext m) example_files outcomes)"
      by blast
    have tr2: "tr' = (tr @ [New_Wav2Letter ?args, Call_print ''Predictions: ''])
                   @ concat (map2 (prediction_events ext m) example_files outcomes)"
      using tr1 by simp
    have "print_predictions_from_files ext m example_files
                 (w2, tr @ [New_Wav2Letter ?args, Call_print ''Predictions: ''])
                = (Inr (), (w', tr'))"
      by (rule iffD2 [OF print_predictions_return [OF example_descriptions]])
        (use os tr2 in blast)
    then have "predict_recording ext (w, tr) = (Inr (), (w', tr'))"
      using l p by (simp add: predict_recording_apply)
    then show "r = Inr ()" using assms by simp
  qed
  show ?thesis by (intro conjI) (rule once a1 a2 a3 completed files)+
qed



theorem predict_recording_resolves_once_witness:
  "predict_recording demo (0, []) =
     (Inr (),
      (11, [New_Wav2Letter (best_model_args demo 128 0 [''a'', ''b'', ''c''] False),
            Call_print ''Predictions: '']
           @ concat (map2 (prediction_events demo (Obj 0)) example_files
               [(Obj 1, Obj 2, ''hello''), (Obj 3, Obj 4, ''hello''), (Obj 5, Obj 6, ''hello''),
                (Obj 7, Obj 8, ''hello''), (Obj 9, Obj 10, ''hello'')])))
   \<and> filter is_model_load
        ([New_Wav2Letter (best_model_args demo 128 0 [''a'', ''b'', ''c''] False),
          Call_print ''Predictions: '']
         @ concat (map2 (prediction_events demo (Obj 0)) example_files
             [(Obj 1, Obj 2, ''hello''), (Obj 3, Obj 4, ''hello''), (Obj 5, Obj 6, ''hello''),
              (Obj 7, Obj 8, ''hello''), (Obj 9, Obj 10, ''hello'')]))
       = [New_Wav2Letter (best_model_args demo 128 0 [''a'', ''b'', ''c''] False)]
   \<and> Wav2Letter demo (best_model_args demo 128 0 [''a'', ''b'', ''c''] False) 0
       = (Inr (Obj 0), 1)
   \<and> print demo ''Predictions: '' 1 = (Inr (), 1)
   \<and> collaborators_predict_all demo (Obj 0) example_files 1
       = Some ([(Obj 1, Obj 2, ''hello''), (Obj 3, Obj 4, ''hello''), (Obj 5, Obj 6, ''hello''),
                (Obj 7, Obj 8, ''hello''), (Obj 9, Obj 10, ''hello'')], 11)
   \<and> predict_single demo (Obj 0) (Obj 2) 3 = (Inr ''hello'', 3)"
proof -
  note run = demo_predict_recording
  have c1: "filter is_model_load
        ([New_Wav2Letter (best_model_args demo 128 0 [''a'', ''b'', ''c''] False),
          Call_print ''Predictions: '']
         @ concat (map2 (prediction_events demo (Obj 0)) example_files
             [(Obj 1, Obj 2, ''hello''), (Obj 3, Obj 4, ''hello''), (Obj 5, Obj 6, ''hello''),
              (Obj 7, Obj 8, ''hello''), (Obj 9, Obj 10, ''hello'')]))
       = [New_Wav2Letter (best_model_args demo 128 0 [''a'', ''b'', ''c''] False)]"
    using conjunct1 [OF predict_recording_resolves_once [OF run]] by (simp add: demo_calls)
  have c2: "Wav2Letter demo (best_model_args demo 128 0 [''a'', ''b'', ''c''] False) 0
       = (Inr (Obj 0), 1)"
    by (simp add: demo_calls fresh_def)
  have c3: "print demo ''Predictions: '' 1 = (Inr (), 1)"
    by (simp add: demo_prediction_calls)
  have c4: "predict_single demo (Obj 0) (Obj 2) 3 = (Inr ''hello'', 3)"
    by (simp add: demo_prediction_calls)
  show ?thesis
    by (intro conjI) (rule run c1 c2 c3 c4 demo_collaborators_predict_all)+
qed


section \<open>Weights matched by symbol\<close>

lemma map_of_zip_at:
  assumes "distinct xs" "length ys = length xs" "j < length xs"
  shows "map_of (zip xs ys) (xs ! j) = Some (ys ! j)"
  using assms by (simp add: map_of_zip_nth)

lemma map_of_zip_absent: "s \<notin> set xs \<Longrightarrow> map_of (zip xs ys) s = None"
  by (auto simp add: map_of_eq_None_iff dest: set_zip_leftD)

text \<open>
  C1. For a trained alphabet without repetitions, with one checkpoint entry for each
  trained symbol and one fresh entry for each target symbol: the new weights have one entry
  for each target symbol; a target symbol that is also a trained symbol has the
  checkpoint's entry of that symbol, wherever the symbol stands in either alphabet, and is
  not marked as fresh; a target symbol that is not a trained symbol has the fresh entry of
  its position and is marked; and the entry of a trained symbol that is not in the target
  alphabet is dropped: changing it changes nothing in the outcome.
\<close>

theorem output_weights_by_symbol:
  assumes "distinct trained"
    and "length checkpoint = length trained"
    and "length fresh_weights = length target"
    and "transfer_output_weights trained target checkpoint fresh_weights = (new, init_mask)"
  shows "length new = length target \<and> length init_mask = length target
    \<and> (\<forall>i < length target. \<forall>j < length trained.
          target ! i = trained ! j \<longrightarrow> new ! i = checkpoint ! j \<and> \<not> init_mask ! i)
    \<and> (\<forall>i < length target.
          target ! i \<notin> set trained \<longrightarrow> new ! i = fresh_weights ! i \<and> init_mask ! i)
    \<and> (\<forall>j < length trained. \<forall>v.
          trained ! j \<notin> set target \<longrightarrow>
            transfer_output_weights trained target (checkpoint[j := v]) fresh_weights
              = (new, init_mask))"
proof -
  have new: "new = map (\<lambda>(s, f). case map_of (zip trained checkpoint) s of Some v \<Rightarrow> v | None \<Rightarrow> f)
                     (zip target fresh_weights)"
    and init_mask: "init_mask = map (\<lambda>s. map_of (zip trained checkpoint) s = None) target"
    using assms(4) by (simp_all add: transfer_output_weights_def)
  have len: "length new = length target \<and> length init_mask = length target"
    using assms(3) by (simp add: new init_mask)
  have shared: "\<forall>i < length target. \<forall>j < length trained.
          target ! i = trained ! j \<longrightarrow> new ! i = checkpoint ! j \<and> \<not> init_mask ! i"
    using assms(1,2,3) by (simp add: new init_mask map_of_zip_at)
  have only_target: "\<forall>i < length target.
          target ! i \<notin> set trained \<longrightarrow> new ! i = fresh_weights ! i \<and> init_mask ! i"
    using assms(3) by (simp add: new init_mask map_of_zip_absent)
  have dropped: "\<forall>j < length trained. \<forall>v.
          trained ! j \<notin> set target \<longrightarrow>
            transfer_output_weights trained target (checkpoint[j := v]) fresh_weights
              = (new, init_mask)"
  proof (intro allI impI)
    fix j v
    assume j: "j < length trained" and out: "trained ! j \<notin> set target"
    have same: "\<And>s. s \<in> set target \<Longrightarrow>
               map_of (zip trained (checkpoint[j := v])) s = map_of (zip trained checkpoint) s"
    proof -
      fix s assume s: "s \<in> set target"
      show "map_of (zip trained (checkpoint[j := v])) s = map_of (zip trained checkpoint) s"
      proof (cases "s \<in> set trained")
        case True
        then obtain k where k: "k < length trained" "trained ! k = s"
          by (auto simp add: in_set_conv_nth)
        then have "k \<noteq> j" using out s by auto
        then show ?thesis
          using k assms(1,2) map_of_zip_at [of trained "checkpoint[j := v]" k]
            map_of_zip_at [of trained checkpoint k]
          by auto
      next
        case False
        then show ?thesis by (simp add: map_of_zip_absent)
      qed
    qed
    have "\<And>p. p \<in> set (zip target fresh_weights) \<Longrightarrow> fst p \<in> set target"
      by (auto dest: set_zip_leftD)
    then show "transfer_output_weights trained target (checkpoint[j := v]) fresh_weights
              = (new, init_mask)"
      using same by (auto simp add: transfer_output_weights_def new init_mask)
  qed
  from len shared only_target dropped show ?thesis by blast
qed


theorem output_weights_by_symbol_witness:
  "distinct [''a'', ''b'', ''c'']
   \<and> length [1, 2, 3 :: int] = length [''a'', ''b'', ''c'']
   \<and> length [10, 20, 30 :: int] = length [''b'', ''c'', ''d'']
   \<and> transfer_output_weights [''a'', ''b'', ''c''] [''b'', ''c'', ''d''] [1, 2, 3 :: int]
        [10, 20, 30]
       = ([2, 3, 30], [False, False, True])
   \<and> [2, 3, 30 :: int] ! 0 = [1, 2, 3] ! 1
   \<and> [2, 3, 30 :: int] ! 2 = [10, 20, 30] ! 2
   \<and> transfer_output_weights [''a'', ''b'', ''c''] [''b'', ''c'', ''d''] ([1, 2, 3 :: int][0 := 7])
        [10, 20, 30]
       = ([2, 3, 30], [False, False, True])"
proof -
  have h1: "distinct [''a'', ''b'', ''c'']" by simp
  have h2: "length [1, 2, 3 :: int] = length [''a'', ''b'', ''c'']" by simp
  have h3: "length [10, 20, 30 :: int] = length [''b'', ''c'', ''d'']" by simp
  have h4: "transfer_output_weights [''a'', ''b'', ''c''] [''b'', ''c'', ''d''] [1, 2, 3 :: int]
        [10, 20, 30] = ([2, 3, 30], [False, False, True])"
    by (simp add: transfer_output_weights_def)
  note t = output_weights_by_symbol [OF h1 h2 h3 h4]
  have c1: "[2, 3, 30 :: int] ! 0 = [1, 2, 3] ! 1"
    using t by simp
  have c2: "[2, 3, 30 :: int] ! 2 = [10, 20, 30] ! 2"
    using t by simp
  from t have d: "\<forall>j < length [''a'', ''b'', ''c'']. \<forall>v.
          [''a'', ''b'', ''c''] ! j \<notin> set [''b'', ''c'', ''d''] \<longrightarrow>
            transfer_output_weights [''a'', ''b'', ''c''] [''b'', ''c'', ''d'']
              ([1, 2, 3 :: int][j := v]) [10, 20, 30]
              = ([2, 3, 30], [False, False, True])"
    by blast
  have c3: "transfer_output_weights [''a'', ''b'', ''c''] [''b'', ''c'', ''d'']
        ([1, 2, 3 :: int][0 := 7]) [10, 20, 30] = ([2, 3, 30], [False, False, True])"
    using d [rule_format, of 0 7] by simp
  from h1 h2 h3 h4 c1 c2 c3 show ?thesis by blast
qed


end
